theory Spec2Isabelle
  imports Main "HOL-Library.Word"
begin

unbundle bit_operations_syntax

section \<open>Data model of WebSocket.cpp\<close>

text \<open>
  A \<open>std::string\<close> is a \<open>string\<close> (a list of 8-bit characters), a
  \<open>std::vector<uint8_t>\<close> is a list of 8-bit words, \<open>unsigned int\<close> is a 32-bit
  word. A \<open>size_t\<close> is a natural number; the two places where the source's 64-bit
  arithmetic on sizes can wrap around (in \<open>ReceiveData\<close>) have the wrap-around
  written out.
\<close>

type_synonym byte = "8 word"
type_synonym uint = "32 word"

text \<open>The casts between \<open>char\<close> and \<open>uint8_t\<close>: both keep the eight bits.\<close>

definition u8 :: "char \<Rightarrow> byte" where
  "u8 c = of_char c"

definition chr :: "byte \<Rightarrow> char" where
  "chr b = char_of (unat b)"

text \<open>
  \<open>(unsigned int)c\<close> for a \<open>char\<close>: \<open>char\<close> is signed on the usual targets, so
  the conversion extends the sign bit.
\<close>

definition uint_of_char :: "char \<Rightarrow> uint" where
  "uint_of_char c = scast (u8 c)"

definition WEBSOCKET_KEY_SALT :: string where
  "WEBSOCKET_KEY_SALT = ''258EAFA5-E914-47DA-95CA-C5AB0DC85B11''"

definition CURRENTLY_SUPPORTED_WEBSOCKET_VERSION :: string where
  "CURRENTLY_SUPPORTED_WEBSOCKET_VERSION = ''13''"

definition REQUIRED_WEBSOCKET_KEY_LENGTH :: nat where
  "REQUIRED_WEBSOCKET_KEY_LENGTH = 16"

definition FIN :: byte where "FIN = 0x80"
definition MASK :: byte where "MASK = 0x80"
definition OPCODE_CONTINUATION :: byte where "OPCODE_CONTINUATION = 0x00"
definition OPCODE_TEXT :: byte where "OPCODE_TEXT = 0x01"
definition OPCODE_BINARY :: byte where "OPCODE_BINARY = 0x02"
definition OPCODE_CLOSE :: byte where "OPCODE_CLOSE = 0x08"
definition OPCODE_PING :: byte where "OPCODE_PING = 0x09"
definition OPCODE_PONG :: byte where "OPCODE_PONG = 0x0A"

datatype FragmentedMessageType = Frag_None | Frag_Text | Frag_Binary

datatype EventType =
  Type_Unknown | Type_Text | Type_Binary | Type_Ping | Type_Pong | Type_Close

text \<open>
  \<open>closeCode\<close> has no initialiser in the source: it is \<open>None\<close> until an event of
  type Close assigns it.
\<close>

record Event =
  etype :: EventType
  content :: string
  closeCode :: "uint option"

datatype Role = Client | Server

record Configuration =
  maxFrameSize :: nat

text \<open>
  The transport (\<open>Http::Connection\<close>) is outside the repository. Its model is the
  trace of the calls the engine makes on it, in order, and the peer identifier it
  reports.
\<close>

datatype ConnectionCall = SendData "byte list" | Break bool

record Connection =
  peerId :: string
  calls :: "ConnectionCall list"

text \<open>
  \<open>Impl\<close>, the private state of a WebSocket. \<open>connection\<close> is \<open>None\<close> for the null
  pointer. \<open>diagnosticsSender\<close> holds the messages published so far (level, format
  string, arguments). \<open>rng\<close> is the stream of bytes the random generator will
  deliver. The mutex and the delegates are not modelled.
\<close>

record Impl =
  configuration :: Configuration
  diagnosticsSender :: "(nat \<times> string \<times> string list) list"
  eventQueue :: "Event list"
  connection :: "Connection option"
  role :: Role
  key :: string
  closeSent :: bool
  closeReceived :: bool
  sending :: FragmentedMessageType
  receiving :: FragmentedMessageType
  frameReassemblyBuffer :: "byte list"
  messageReassemblyBuffer :: string
  rng :: "nat \<Rightarrow> byte"

text \<open>
  What is undefined behaviour or an uncaught exception in the C++ is an error value
  of the model: a call through the null \<open>connection\<close>, and an access outside the
  frame reassembly buffer.
\<close>

datatype error = NullPointer | OutOfRange

section \<open>The collaborators\<close>

definition connection_SendData :: "byte list \<Rightarrow> Impl \<Rightarrow> error + Impl" where
  "connection_SendData frame s =
     (case connection s of
        None \<Rightarrow> Inl NullPointer
      | Some c \<Rightarrow> Inr (s\<lparr>connection := Some (c\<lparr>calls := calls c @ [SendData frame]\<rparr>)\<rparr>))"

definition connection_Break :: "bool \<Rightarrow> Impl \<Rightarrow> error + Impl" where
  "connection_Break clean s =
     (case connection s of
        None \<Rightarrow> Inl NullPointer
      | Some c \<Rightarrow> Inr (s\<lparr>connection := Some (c\<lparr>calls := calls c @ [Break clean]\<rparr>)\<rparr>))"

definition SendDiagnosticInformationFormatted ::
  "nat \<Rightarrow> string \<Rightarrow> string list \<Rightarrow> Impl \<Rightarrow> Impl" where
  "SendDiagnosticInformationFormatted level fmt args s =
     s\<lparr>diagnosticsSender := diagnosticsSender s @ [(level, fmt, args)]\<rparr>"

text \<open>\<open>rng.Generate(buffer, n)\<close>: the next \<open>n\<close> bytes of the stream.\<close>

definition Generate :: "nat \<Rightarrow> Impl \<Rightarrow> byte list \<times> Impl" where
  "Generate n s = (map (rng s) [0..<n], s\<lparr>rng := (\<lambda>i. rng s (n + i))\<rparr>)"

section \<open>Sending a frame\<close>

text \<open>
  \<open>payload[i] ^ maskingKey[i % 4]\<close>: the \<open>char\<close> and the \<open>uint8_t\<close> are promoted to
  \<open>int\<close>, and \<open>push_back\<close> keeps the low eight bits of the result.
\<close>

definition xor_promoted :: "char \<Rightarrow> byte \<Rightarrow> byte" where
  "xor_promoted c k = ucast ((scast (u8 c) :: uint) XOR ucast k)"

text \<open>
  The first bytes of a frame (lines 477 to 499 of the source): the octet with FIN
  and the opcode, then the length of the payload in one, three or nine octets, the
  first of them carrying \<open>maskBit\<close>. The casts to \<open>uint8_t\<close> keep the low eight bits.
\<close>

definition SendFrame_header :: "bool \<Rightarrow> byte \<Rightarrow> byte \<Rightarrow> nat \<Rightarrow> byte list" where
  "SendFrame_header fin opcode maskBit len =
     (let frame = [(if fin then FIN else 0) + opcode]
      in if len < 126 then frame @ [of_nat len + maskBit]
         else if len < 65536 then
           frame @ [0x7E + maskBit, of_nat (drop_bit 8 len), of_nat (len AND 0xFF)]
         else
           frame @ [0x7F + maskBit,
                    of_nat (drop_bit 56 len),
                    of_nat (drop_bit 48 len AND 0xFF),
                    of_nat (drop_bit 40 len AND 0xFF),
                    of_nat (drop_bit 32 len AND 0xFF),
                    of_nat (drop_bit 24 len AND 0xFF),
                    of_nat (drop_bit 16 len AND 0xFF),
                    of_nat (drop_bit 8 len AND 0xFF),
                    of_nat (len AND 0xFF)])"

text \<open>The masking loop (lines 512 to 514 of the source).\<close>

definition SendFrame_masked :: "byte list \<Rightarrow> string \<Rightarrow> byte list" where
  "SendFrame_masked maskingKey payload =
     map (\<lambda>i. xor_promoted (payload ! i) (maskingKey ! (i mod 4))) [0..<length payload]"

definition SendFrame :: "bool \<Rightarrow> byte \<Rightarrow> string \<Rightarrow> Impl \<Rightarrow> error + Impl" where
  "SendFrame fin opcode payload s =
     (let mask = (if role s = Client then MASK else 0);
          frame = SendFrame_header fin opcode mask (length payload)
      in if mask = 0 then connection_SendData (frame @ map u8 payload) s
         else
           (let (maskingKey, s1) = Generate 4 s
            in connection_SendData (frame @ maskingKey @ SendFrame_masked maskingKey payload) s1))"

text \<open>
  The vector that \<open>SendFrame\<close> hands to \<open>connection->SendData\<close>, as a function of
  the role and of the masking key drawn; lemma \<open>SendFrame_sends\<close> below shows that
  this is what \<open>SendFrame\<close> sends. The theorems name sent frames with it.
\<close>

definition SendFrame_frame :: "Role \<Rightarrow> byte list \<Rightarrow> bool \<Rightarrow> byte \<Rightarrow> string \<Rightarrow> byte list" where
  "SendFrame_frame r maskingKey fin opcode payload =
     (if r = Client
      then SendFrame_header fin opcode MASK (length payload) @ maskingKey
             @ SendFrame_masked maskingKey payload
      else SendFrame_header fin opcode 0 (length payload) @ map u8 payload)"

section \<open>The close state machine\<close>

definition OnClose :: "uint \<Rightarrow> string \<Rightarrow> Impl \<Rightarrow> error + Impl" where
  "OnClose code reason s =
     (let closeSentEarlier = closeSent s;
          s1 = s\<lparr>closeReceived := True\<rparr>;
          event = \<lparr>etype = Type_Close, content = reason, closeCode = Some code\<rparr>;
          s2 = s1\<lparr>eventQueue := eventQueue s1 @ [event]\<rparr>
      in if closeSentEarlier then connection_Break False s2 else Inr s2)"

text \<open>
  \<open>c_str()\<close> of a string, as \<open>%s\<close> prints it: the characters before the first NUL.
\<close>

definition c_str :: "string \<Rightarrow> string" where
  "c_str x = takeWhile (\<lambda>c. c \<noteq> CHR 0x00) x"

text \<open>
  The payload of a close frame (lines 439 to 444 of the source): nothing for code
  1005, otherwise the two bytes of the code, high byte first, and the reason.
\<close>

definition Close_data :: "uint \<Rightarrow> string \<Rightarrow> string" where
  "Close_data code reason =
     (if code \<noteq> 1005
      then [chr (ucast (drop_bit 8 code)), chr (ucast (code AND 0xFF))] @ reason
      else [])"

definition Close :: "uint \<Rightarrow> string \<Rightarrow> bool \<Rightarrow> Impl \<Rightarrow> error + Impl" where
  "Close code reason fail s =
     (if closeSent s then Inr s
      else
        (let s1 = s\<lparr>closeSent := True\<rparr>
         in if code = 1006 then OnClose code reason s1
            else
              (case SendFrame True OPCODE_CLOSE (Close_data code reason) s1 of
                 Inl e \<Rightarrow> Inl e
               | Inr s2 \<Rightarrow>
                   (case (if fail then OnClose code reason s2
                          else if closeReceived s2 then connection_Break True s2
                          else Inr s2) of
                      Inl e \<Rightarrow> Inl e
                    | Inr s3 \<Rightarrow>
                        (case connection s3 of
                           None \<Rightarrow> Inl NullPointer
                         | Some c \<Rightarrow>
                             Inr (SendDiagnosticInformationFormatted 1
                                    ''Connection to %s closed (%s)''
                                    [c_str (peerId c), c_str reason] s3))))))"

section \<open>Receiving\<close>

text \<open>
  The UTF-8 validator (\<open>Utf8::Utf8::IsValidEncoding\<close>) is outside the repository:
  the functions that call it take it as the parameter \<open>IsValidEncoding\<close>.
\<close>

definition OnTextMessage :: "(string \<Rightarrow> bool) \<Rightarrow> string \<Rightarrow> Impl \<Rightarrow> error + Impl" where
  "OnTextMessage IsValidEncoding message s =
     (if IsValidEncoding message
      then Inr (s\<lparr>eventQueue := eventQueue s @
                    [\<lparr>etype = Type_Text, content = message, closeCode = None\<rparr>]\<rparr>)
      else Close 1007 ''invalid UTF-8 encoding in text message'' True s)"

definition OnBinaryMessage :: "string \<Rightarrow> Impl \<Rightarrow> error + Impl" where
  "OnBinaryMessage message s =
     Inr (s\<lparr>eventQueue := eventQueue s @
               [\<lparr>etype = Type_Binary, content = message, closeCode = None\<rparr>]\<rparr>)"

text \<open>
  The payload of the frame at the head of the buffer (lines 555 to 569 of the
  source). The server removes the mask with the key in the four bytes before the
  payload; the client copies the bytes. The source reads the buffer unchecked and
  resizes \<open>data\<close> to \<open>payloadLength\<close>: a range that leaves the buffer is the error
  \<open>OutOfRange\<close>.
\<close>

definition ReceiveFrame_data :: "Role \<Rightarrow> nat \<Rightarrow> nat \<Rightarrow> byte list \<Rightarrow> error + string" where
  "ReceiveFrame_data r headerLength payloadLength buf =
     (if r = Server then
        (if payloadLength = 0 then Inr []
         else if headerLength < 4 \<or> length buf < headerLength + payloadLength
         then Inl OutOfRange
         else Inr (map (\<lambda>i. chr (buf ! (headerLength + i) XOR buf ! (headerLength - 4 + (i mod 4))))
                       [0..<payloadLength]))
      else
        (if length buf < headerLength + payloadLength then Inl OutOfRange
         else Inr (map chr (take payloadLength (drop headerLength buf)))))"

text \<open>The \<open>switch (opcode)\<close> of \<open>ReceiveFrame\<close> (lines 570 to 667 of the source).\<close>

definition ReceiveFrame_switch ::
  "(string \<Rightarrow> bool) \<Rightarrow> bool \<Rightarrow> byte \<Rightarrow> string \<Rightarrow> Impl \<Rightarrow> error + Impl" where
  "ReceiveFrame_switch IsValidEncoding fin opcode data s =
     (if opcode = OPCODE_CONTINUATION then
        (let s1 = s\<lparr>messageReassemblyBuffer := messageReassemblyBuffer s @ data\<rparr>
         in case (case receiving s1 of
                    Frag_Text \<Rightarrow>
                      (if fin then OnTextMessage IsValidEncoding (messageReassemblyBuffer s1) s1
                       else Inr s1)
                  | Frag_Binary \<Rightarrow>
                      (if fin then OnBinaryMessage (messageReassemblyBuffer s1) s1
                       else Inr s1)
                  | Frag_None \<Rightarrow>
                      Close 1002 ''unexpected continuation frame'' True
                        (s1\<lparr>messageReassemblyBuffer := []\<rparr>)) of
              Inl e \<Rightarrow> Inl e
            | Inr s2 \<Rightarrow>
                Inr (if fin then s2\<lparr>receiving := Frag_None, messageReassemblyBuffer := []\<rparr>
                     else s2))
      else if opcode = OPCODE_TEXT then
        (if receiving s = Frag_None then
           (if fin then OnTextMessage IsValidEncoding data s
            else Inr (s\<lparr>receiving := Frag_Text, messageReassemblyBuffer := data\<rparr>))
         else Close 1002 ''last message incomplete'' True s)
      else if opcode = OPCODE_BINARY then
        (if receiving s = Frag_None then
           (if fin then OnBinaryMessage data s
            else Inr (s\<lparr>receiving := Frag_Binary, messageReassemblyBuffer := data\<rparr>))
         else Close 1002 ''last message incomplete'' True s)
      else if opcode = OPCODE_CLOSE then
        (let (code, reason) =
               (if length data \<ge> 2
                then ((push_bit 8 (uint_of_char (data ! 0)) AND 0xFF00)
                        + (uint_of_char (data ! 1) AND 0x00FF),
                      drop 2 data)
                else (1005, []));
             fail = (length data \<ge> 2 \<and> \<not> IsValidEncoding reason)
         in if fail then Close 1007 ''invalid UTF-8 encoding in close reason'' True s
            else
              (case OnClose code reason s of
                 Inl e \<Rightarrow> Inl e
               | Inr s1 \<Rightarrow>
                   (case connection s1 of
                      None \<Rightarrow> Inl NullPointer
                    | Some c \<Rightarrow>
                        Inr (SendDiagnosticInformationFormatted 1
                               ''Connection to %s closed by peer'' [c_str (peerId c)] s1))))
      else if opcode = OPCODE_PING then
        (case SendFrame True OPCODE_PONG data s of
           Inl e \<Rightarrow> Inl e
         | Inr s1 \<Rightarrow>
             Inr (s1\<lparr>eventQueue := eventQueue s1 @
                        [\<lparr>etype = Type_Ping, content = data, closeCode = None\<rparr>]\<rparr>))
      else if opcode = OPCODE_PONG then
        Inr (s\<lparr>eventQueue := eventQueue s @
                  [\<lparr>etype = Type_Pong, content = data, closeCode = None\<rparr>]\<rparr>)
      else Close 1002 ''unknown opcode'' True s)"

definition ReceiveFrame :: "(string \<Rightarrow> bool) \<Rightarrow> nat \<Rightarrow> nat \<Rightarrow> Impl \<Rightarrow> error + Impl" where
  "ReceiveFrame IsValidEncoding headerLength payloadLength s =
     (if closeReceived s then Inr s
      else
        (let buf = frameReassemblyBuffer s
         in if length buf < 1 then Inl OutOfRange
            else
              (let fin = (buf ! 0 AND FIN \<noteq> 0);
                   reservedBits = drop_bit 4 (buf ! 0) AND 0x07
               in if reservedBits \<noteq> 0 then Close 1002 ''reserved bits set'' True s
                  else if length buf < 2 then Inl OutOfRange
                  else
                    (let mask = (buf ! 1 AND MASK \<noteq> 0)
                     in if mask \<and> role s = Client then Close 1002 ''masked frame'' True s
                        else if \<not> mask \<and> role s = Server
                        then Close 1002 ''unmasked frame'' True s
                        else
                          (let opcode = buf ! 0 AND 0x0F
                           in case ReceiveFrame_data (role s) headerLength payloadLength buf of
                                Inl e \<Rightarrow> Inl e
                              | Inr data \<Rightarrow>
                                  ReceiveFrame_switch IsValidEncoding fin opcode data s)))))"

text \<open>
  The header and payload lengths that the loop of \<open>ReceiveData\<close> reads from the
  head of the buffer (lines 703 to 735 of the source); \<open>None\<close> where the loop
  returns to wait for more bytes of the header. The caller has checked that the
  buffer holds two bytes.
\<close>

definition ReceiveData_lengths :: "byte list \<Rightarrow> (nat \<times> nat) option" where
  "ReceiveData_lengths buf =
     (let lengthFirstOctet = buf ! 1 AND NOT MASK;
          extra = (if buf ! 1 AND MASK \<noteq> 0 then 4 else 0)
      in if lengthFirstOctet = 0x7E then
           (if length buf < 4 then None
            else Some (4 + extra, push_bit 8 (unat (buf ! 2)) + unat (buf ! 3)))
         else if lengthFirstOctet = 0x7F then
           (if length buf < 10 then None
            else Some (10 + extra,
                       push_bit 56 (unat (buf ! 2)) + push_bit 48 (unat (buf ! 3))
                       + push_bit 40 (unat (buf ! 4)) + push_bit 32 (unat (buf ! 5))
                       + push_bit 24 (unat (buf ! 6)) + push_bit 16 (unat (buf ! 7))
                       + push_bit 8 (unat (buf ! 8)) + unat (buf ! 9)))
         else Some (2 + extra, unat lengthFirstOctet))"

text \<open>
  The \<open>for(;;)\<close> loop of \<open>ReceiveData\<close>. The sum \<open>headerLength + payloadLength\<close> is
  computed in \<open>size_t\<close> and wraps around at \<open>2 ^ 64\<close>; when it wraps to zero and
  \<open>ReceiveFrame\<close> returns, nothing is erased and the loop does not end, so the
  loop runs on fuel: \<open>None\<close> is a loop that has not returned within the fuel.
\<close>

fun ReceiveData_loop :: "(string \<Rightarrow> bool) \<Rightarrow> nat \<Rightarrow> Impl \<Rightarrow> (error + Impl) option" where
  "ReceiveData_loop IsValidEncoding 0 s = None"
| "ReceiveData_loop IsValidEncoding (Suc fuel) s =
     (if length (frameReassemblyBuffer s) < 2 then Some (Inr s)
      else
        (case ReceiveData_lengths (frameReassemblyBuffer s) of
           None \<Rightarrow> Some (Inr s)
         | Some (headerLength, payloadLength) \<Rightarrow>
             (if length (frameReassemblyBuffer s) < (headerLength + payloadLength) mod 2 ^ 64
              then Some (Inr s)
              else
                (case ReceiveFrame IsValidEncoding headerLength payloadLength s of
                   Inl e \<Rightarrow> Some (Inl e)
                 | Inr s1 \<Rightarrow>
                     ReceiveData_loop IsValidEncoding fuel
                       (s1\<lparr>frameReassemblyBuffer :=
                             drop ((headerLength + payloadLength) mod 2 ^ 64)
                                  (frameReassemblyBuffer s1)\<rparr>)))))"

text \<open>
  \<open>ReceiveData\<close>: the null check, the cap on buffered bytes, the append, the
  loop. The sum of the two sizes in the cap is a sum of sizes of objects in
  memory and does not wrap.
\<close>

definition ReceiveData ::
  "(string \<Rightarrow> bool) \<Rightarrow> nat \<Rightarrow> byte list \<Rightarrow> Impl \<Rightarrow> (error + Impl) option" where
  "ReceiveData IsValidEncoding fuel data s =
     (if connection s = None then Some (Inr s)
      else if maxFrameSize (configuration s) > 0
              \<and> length (frameReassemblyBuffer s) + length data > maxFrameSize (configuration s)
      then Some (Close 1009 ''frame too large'' True s)
      else ReceiveData_loop IsValidEncoding fuel
             (s\<lparr>frameReassemblyBuffer := frameReassemblyBuffer s @ data\<rparr>))"

definition ConnectionBroken :: "Impl \<Rightarrow> error + Impl" where
  "ConnectionBroken s =
     (case connection s of
        None \<Rightarrow> Inr s
      | Some c0 \<Rightarrow>
          (case Close 1006 ''connection broken by peer'' True s of
             Inl e \<Rightarrow> Inl e
           | Inr s1 \<Rightarrow>
               (case connection s1 of
                  None \<Rightarrow> Inl NullPointer
                | Some c \<Rightarrow>
                    Inr (SendDiagnosticInformationFormatted 1
                           ''Connection to %s broken by peer'' [c_str (peerId c)] s1))))"

text \<open>The public \<open>WebSocket::Close(code, reason)\<close>, without the dispatch of events.\<close>

definition WebSocket_Close :: "uint \<Rightarrow> string \<Rightarrow> Impl \<Rightarrow> error + Impl" where
  "WebSocket_Close code reason s =
     (if connection s = None then Inr s else Close code reason False s)"

section \<open>The opening handshake\<close>

text \<open>
  The HTTP messages, Base64, SHA-1 and \<open>ToLower\<close> are outside the repository. The
  handshake functions take them as the parameter \<open>lib\<close>: the operations of the
  header collection (of some type \<open>'h\<close>) that the source calls, and the
  primitives. \<open>SetHeaderTokens\<close> is the overload of \<open>SetHeader\<close> that takes a list
  of tokens.
\<close>

record 'h Library =
  SetHeader :: "string \<Rightarrow> string \<Rightarrow> 'h \<Rightarrow> 'h"
  SetHeaderTokens :: "string \<Rightarrow> string list \<Rightarrow> 'h \<Rightarrow> 'h"
  GetHeaderValue :: "string \<Rightarrow> 'h \<Rightarrow> string"
  GetHeaderTokens :: "string \<Rightarrow> 'h \<Rightarrow> string list"
  HasHeaderToken :: "string \<Rightarrow> string \<Rightarrow> 'h \<Rightarrow> bool"
  ToLower :: "string \<Rightarrow> string"
  Base64_Encode :: "byte list \<Rightarrow> string"
  Base64_Decode :: "string \<Rightarrow> byte list"
  Sha1 :: "string \<Rightarrow> byte list"

record 'h Request =
  requestMethod :: string
  requestHeaders :: 'h

record 'h Response =
  statusCode :: nat
  reasonPhrase :: string
  responseHeaders :: 'h

definition ComputeKeyAnswer :: "('h, 'x) Library_scheme \<Rightarrow> string \<Rightarrow> string" where
  "ComputeKeyAnswer lib k = Base64_Encode lib (Sha1 lib (k @ WEBSOCKET_KEY_SALT))"

text \<open>
  \<open>Open\<close> binds the transport and the role; it calls through the connection to
  register its delegates, which are not modelled.
\<close>

definition Open :: "Connection option \<Rightarrow> Role \<Rightarrow> Impl \<Rightarrow> error + Impl" where
  "Open conn r s =
     (case conn of
        None \<Rightarrow> Inl NullPointer
      | Some c \<Rightarrow> Inr (s\<lparr>connection := conn, role := r\<rparr>))"

definition StartOpenAsClient ::
  "('h, 'x) Library_scheme \<Rightarrow> 'h Request \<Rightarrow> Impl \<Rightarrow> 'h Request \<times> Impl" where
  "StartOpenAsClient lib request s =
     (let h1 = SetHeader lib ''Sec-WebSocket-Version'' CURRENTLY_SUPPORTED_WEBSOCKET_VERSION
                 (requestHeaders request);
          (nonce, s1) = Generate 16 s;
          s2 = s1\<lparr>key := Base64_Encode lib nonce\<rparr>;
          h2 = SetHeader lib ''Sec-WebSocket-Key'' (key s2) h1;
          h3 = SetHeader lib ''Upgrade'' ''websocket'' h2;
          connectionTokens = GetHeaderTokens lib ''Connection'' h3 @ [''upgrade''];
          h4 = SetHeaderTokens lib ''Connection'' connectionTokens h3
      in (request\<lparr>requestHeaders := h4\<rparr>, s2))"

definition FinishOpenAsClient ::
  "('h, 'x) Library_scheme \<Rightarrow> Connection option \<Rightarrow> 'h Response \<Rightarrow> Impl
   \<Rightarrow> error + (bool \<times> Impl)" where
  "FinishOpenAsClient lib conn response s =
     (let h = responseHeaders response
      in if statusCode response \<noteq> 101 then Inr (False, s)
         else if \<not> HasHeaderToken lib ''Connection'' ''upgrade'' h then Inr (False, s)
         else if ToLower lib (GetHeaderValue lib ''Upgrade'' h) \<noteq> ''websocket''
         then Inr (False, s)
         else if GetHeaderValue lib ''Sec-WebSocket-Accept'' h \<noteq> ComputeKeyAnswer lib (key s)
         then Inr (False, s)
         else if GetHeaderTokens lib ''Sec-WebSocket-Extensions'' h \<noteq> [] then Inr (False, s)
         else if GetHeaderTokens lib ''Sec-WebSocket-Protocol'' h \<noteq> [] then Inr (False, s)
         else (case Open conn Client s of
                 Inl e \<Rightarrow> Inl e
               | Inr s1 \<Rightarrow> Inr (True, s1)))"

definition OpenAsServer ::
  "('h, 'x) Library_scheme \<Rightarrow> Connection option \<Rightarrow> 'h Request \<Rightarrow> 'h Response \<Rightarrow> string
   \<Rightarrow> Impl \<Rightarrow> error + (bool \<times> 'h Response \<times> Impl)" where
  "OpenAsServer lib conn request response trailer s =
     (let h = requestHeaders request
      in if requestMethod request \<noteq> ''GET'' then Inr (False, response, s)
         else if \<not> HasHeaderToken lib ''Connection'' ''upgrade'' h
         then Inr (False, response, s)
         else if ToLower lib (GetHeaderValue lib ''Upgrade'' h) \<noteq> ''websocket''
         then Inr (False, response, s)
         else if GetHeaderValue lib ''Sec-WebSocket-Version'' h
                 \<noteq> CURRENTLY_SUPPORTED_WEBSOCKET_VERSION
         then Inr (False, response\<lparr>statusCode := 400, reasonPhrase := ''Bad Request''\<rparr>, s)
         else if trailer \<noteq> []
         then Inr (False, response\<lparr>statusCode := 400, reasonPhrase := ''Bad Request''\<rparr>, s)
         else
           (let s1 = s\<lparr>key := GetHeaderValue lib ''Sec-WebSocket-Key'' h\<rparr>
            in if length (Base64_Decode lib (key s1)) \<noteq> REQUIRED_WEBSOCKET_KEY_LENGTH
               then Inr (False,
                         response\<lparr>statusCode := 400, reasonPhrase := ''Bad Request''\<rparr>, s1)
               else
                 (let connectionTokens =
                        GetHeaderTokens lib ''Connection'' (responseHeaders response)
                          @ [''upgrade''];
                      r1 = response\<lparr>statusCode := 101,
                                     reasonPhrase := ''Switching Protocols''\<rparr>;
                      h1 = SetHeaderTokens lib ''Connection'' connectionTokens
                             (responseHeaders r1);
                      h2 = SetHeader lib ''Upgrade'' ''websocket'' h1;
                      h3 = SetHeader lib ''Sec-WebSocket-Accept''
                             (ComputeKeyAnswer lib (key s1)) h2;
                      r2 = r1\<lparr>responseHeaders := h3\<rparr>
                  in case Open conn Server s1 of
                       Inl e \<Rightarrow> Inl e
                     | Inr s2 \<Rightarrow> Inr (True, r2, s2))))"

section \<open>Observations and example states\<close>

text \<open>The calls made on the transport and the events queued, read off a result.\<close>

definition calls_of :: "error + Impl \<Rightarrow> ConnectionCall list" where
  "calls_of r =
     (case r of
        Inl e \<Rightarrow> []
      | Inr s \<Rightarrow> (case connection s of None \<Rightarrow> [] | Some c \<Rightarrow> calls c))"

definition events_of :: "error + Impl \<Rightarrow> Event list" where
  "events_of r = (case r of Inl e \<Rightarrow> [] | Inr s \<Rightarrow> eventQueue s)"

text \<open>
  A freshly opened engine: nothing sent or received yet, an empty trace on the
  transport, the random generator delivering the bytes 0x37 0xFA 0x21 0x3D over
  and over.
\<close>

definition example_rng :: "nat \<Rightarrow> byte" where
  "example_rng i = [0x37, 0xFA, 0x21, 0x3D] ! (i mod 4)"

definition example_engine :: "Role \<Rightarrow> Impl" where
  "example_engine r =
     \<lparr>configuration = \<lparr>maxFrameSize = 0\<rparr>,
      diagnosticsSender = [],
      eventQueue = [],
      connection = Some \<lparr>peerId = ''peer'', calls = []\<rparr>,
      role = r,
      key = [],
      closeSent = False,
      closeReceived = False,
      sending = Frag_None,
      receiving = Frag_None,
      frameReassemblyBuffer = [],
      messageReassemblyBuffer = [],
      rng = example_rng\<rparr>"

text \<open>A validator for the examples: it accepts exactly the strings of 7-bit characters.\<close>

definition example_IsValidEncoding :: "string \<Rightarrow> bool" where
  "example_IsValidEncoding x = list_all (\<lambda>c. (of_char c :: nat) < 128) x"

text \<open>
  The masked text frame "Hello" of RFC 6455 (key 0x37 0xFA 0x21 0x3D), the same
  payload in a final continuation frame, and an engine with a given reassembly
  buffer, message in progress and message buffer.
\<close>

definition example_masked_text :: "byte list" where
  "example_masked_text = [0x81, 0x85, 0x37, 0xFA, 0x21, 0x3D, 0x7F, 0x9F, 0x4D, 0x51, 0x58]"

definition example_masked_continuation :: "byte list" where
  "example_masked_continuation =
     [0x80, 0x85, 0x37, 0xFA, 0x21, 0x3D, 0x7F, 0x9F, 0x4D, 0x51, 0x58]"

definition example_receiver ::
  "Role \<Rightarrow> byte list \<Rightarrow> FragmentedMessageType \<Rightarrow> string \<Rightarrow> Impl" where
  "example_receiver r buf rcv msg =
     (example_engine r)\<lparr>frameReassemblyBuffer := buf, receiving := rcv,
                         messageReassemblyBuffer := msg\<rparr>"

text \<open>
  Further frames and states for the examples: a text frame with the payload
  0xC3 0x28 (not UTF-8), a Ping frame with FIN clear and 126 bytes of payload,
  close frames (masked and empty; code 1000 and reason "bye"; code 1000 and the
  reason 0xC3; unmasked and empty), an engine that has sent a close frame and has
  the last of these in its buffer, an engine that has received a close frame,
  and an engine with \<open>maxFrameSize\<close> 100.
\<close>

definition example_masked_invalid_text :: "byte list" where
  "example_masked_invalid_text = [0x81, 0x82, 0x37, 0xFA, 0x21, 0x3D, 0xF4, 0xD2]"

definition example_long_ping :: "byte list" where
  "example_long_ping = [0x09, 0x7E, 0x00, 0x7E] @ replicate 126 0x61"

definition example_close_empty :: "byte list" where
  "example_close_empty = [0x88, 0x80, 0x37, 0xFA, 0x21, 0x3D]"

definition example_close_bye :: "byte list" where
  "example_close_bye = [0x88, 0x05, 0x03, 0xE8, 0x62, 0x79, 0x65]"

definition example_close_invalid :: "byte list" where
  "example_close_invalid = [0x88, 0x03, 0x03, 0xE8, 0xC3]"

definition example_close_unmasked :: "byte list" where
  "example_close_unmasked = [0x88, 0x00]"

definition example_close_sent :: Impl where
  "example_close_sent =
     (example_receiver Client example_close_unmasked Frag_None [])\<lparr>closeSent := True\<rparr>"

definition example_close_received :: Impl where
  "example_close_received = (example_engine Server)\<lparr>closeReceived := True\<rparr>"

definition example_capped :: Impl where
  "example_capped = (example_engine Server)\<lparr>configuration := \<lparr>maxFrameSize = 100\<rparr>\<rparr>"

text \<open>
  A stand-in for the library, for the examples only: a header collection is a
  function from header names to lists of tokens, and Base64 and SHA-1 are
  replaced by the identity on bytes. With it, the request that a client prepares,
  the client after preparing it, and what a server answers to that request.
\<close>

definition example_lib :: "(string \<Rightarrow> string list) Library" where
  "example_lib =
     \<lparr>SetHeader = (\<lambda>n v h. h(n := [v])),
      SetHeaderTokens = (\<lambda>n ts h. h(n := ts)),
      GetHeaderValue = (\<lambda>n h. concat (h n)),
      GetHeaderTokens = (\<lambda>n h. h n),
      HasHeaderToken = (\<lambda>n t h. t \<in> set (h n)),
      ToLower = (\<lambda>x. x),
      Base64_Encode = map chr,
      Base64_Decode = map u8,
      Sha1 = map u8\<rparr>"

definition example_request :: "(string \<Rightarrow> string list) Request" where
  "example_request = \<lparr>requestMethod = ''GET'', requestHeaders = (\<lambda>n. [])\<rparr>"

definition example_response :: "(string \<Rightarrow> string list) Response" where
  "example_response = \<lparr>statusCode = 0, reasonPhrase = [], responseHeaders = (\<lambda>n. [])\<rparr>"

definition example_upgrade_request :: "(string \<Rightarrow> string list) Request" where
  "example_upgrade_request =
     fst (StartOpenAsClient example_lib example_request (example_engine Client))"

definition example_client :: Impl where
  "example_client = snd (StartOpenAsClient example_lib example_request (example_engine Client))"

definition example_server_result ::
  "error + (bool \<times> (string \<Rightarrow> string list) Response \<times> Impl)" where
  "example_server_result =
     OpenAsServer example_lib (Some \<lparr>peerId = ''client'', calls = []\<rparr>)
       example_upgrade_request example_response [] (example_engine Server)"

definition example_accepted_response :: "(string \<Rightarrow> string list) Response" where
  "example_accepted_response = fst (snd (projr example_server_result))"

definition example_server :: Impl where
  "example_server = snd (snd (projr example_server_result))"

text \<open>
  An engine that has received a close frame and whose buffer holds a header
  announcing a payload of \<open>2 ^ 64 - 10\<close> bytes.
\<close>

definition example_endless :: Impl where
  "example_endless =
     (example_engine Client)\<lparr>closeReceived := True,
        frameReassemblyBuffer := [0x82, 0x7F, 0xFF, 0xFF, 0xFF, 0xFF, 0xFF, 0xFF, 0xFF, 0xF6]\<rparr>"

section \<open>Bytes, characters and bits\<close>

lemma unat_u8: "unat (u8 c) = of_char c"
proof -
  have "u8 c = of_nat (of_char c)"
    by (simp add: u8_def of_nat_of_char)
  then have "unat (u8 c) = (of_char c :: nat) mod 2 ^ 8"
    by (simp add: unat_of_nat)
  then show ?thesis
    by simp
qed

lemma chr_u8: "chr (u8 c) = c"
  by (simp add: chr_def unat_u8)

lemma u8_chr: "u8 (chr b) = b"
proof -
  have "unat b < 2 ^ 8"
    using unsigned_less [of b] by simp
  then have "(of_char (char_of (unat b)) :: nat) = unat b"
    by simp
  then have "of_nat (of_char (char_of (unat b)) :: nat) = (b :: byte)"
    by simp
  then show ?thesis
    unfolding chr_def u8_def by (simp only: of_nat_of_char)
qed

lemma map_chr_u8: "map chr (map u8 p) = p"
  by (simp add: chr_u8 comp_def)

lemma xor_promoted_eq: "xor_promoted c k = u8 c XOR k"
  unfolding xor_promoted_def
  by (rule bit_word_eqI) (auto simp add: bit_simps)

lemma MASK_neq0: "MASK \<noteq> 0"
  by (simp add: MASK_def)

lemma nat_and_128: "n AND (128::nat) = 0" if "n < 128"
proof -
  from that have "\<not> bit n 7"
    by (simp add: bit_iff_odd_drop_bit drop_bit_eq_div)
  then show ?thesis
    using and_exp_eq_0_iff_not_bit [of n 7] by simp
qed

lemma small_and_MASK: "(of_nat n :: byte) AND MASK = 0" if "n < 128"
proof -
  have "(of_nat n :: byte) AND of_nat 128 = of_nat (n AND 128)"
    by (simp only: of_nat_and_eq)
  then show ?thesis
    using nat_and_128 [OF that] by (simp add: MASK_def)
qed

lemma small_and_not_MASK: "(of_nat n :: byte) AND NOT MASK = of_nat n" if "n < 128"
proof -
  have "(of_nat n :: byte) = (of_nat n AND MASK) OR (of_nat n AND NOT MASK)"
    by (simp flip: bit.conj_disj_distrib)
  then show ?thesis
    using small_and_MASK [OF that] by simp
qed

lemma small_plus_MASK: "of_nat n + MASK = (of_nat n :: byte) OR MASK" if "n < 128"
  by (rule disjunctive_add_eq_or) (rule small_and_MASK [OF that])

lemma and255: "n AND (0xFF::nat) = n mod 256"
  using take_bit_eq_mask [of 8 n] by (simp add: take_bit_eq_mod mask_eq_exp_minus_1)

lemma unat_byte_of_nat: "unat (of_nat m :: byte) = m mod 256"
  by (simp add: unat_of_nat)

section \<open>What SendFrame and Close do\<close>

lemma length_SendFrame_masked: "length (SendFrame_masked k p) = length p"
  by (simp add: SendFrame_masked_def)

lemma nth_SendFrame_masked:
  "i < length p \<Longrightarrow> SendFrame_masked k p ! i = u8 (p ! i) XOR k ! (i mod 4)"
  by (simp add: SendFrame_masked_def xor_promoted_eq)

lemma SendFrame_sends:
  assumes "connection s = Some c"
  shows "SendFrame fin opcode payload s =
     Inr (s\<lparr>connection := Some (c\<lparr>calls := calls c @
              [SendData (SendFrame_frame (role s) (map (rng s) [0..<4]) fin opcode payload)]\<rparr>),
            rng := (if role s = Client then (\<lambda>i. rng s (4 + i)) else rng s)\<rparr>)"
  using assms
  by (simp add: SendFrame_def SendFrame_frame_def Generate_def connection_SendData_def
        MASK_neq0 Let_def)

lemma Close_noop: "closeSent s \<Longrightarrow> Close code reason fail s = Inr s"
  by (simp add: Close_def)

lemma Close_fail:
  assumes "\<not> closeSent s" "connection s = Some c" "code \<noteq> 1006"
  shows "Close code reason True s =
     Inr (s\<lparr>closeSent := True, closeReceived := True,
            eventQueue := eventQueue s @
              [\<lparr>etype = Type_Close, content = reason, closeCode = Some code\<rparr>],
            connection := Some (c\<lparr>calls := calls c @
              [SendData (SendFrame_frame (role s) (map (rng s) [0..<4]) True OPCODE_CLOSE
                           (Close_data code reason)),
               Break False]\<rparr>),
            rng := (if role s = Client then (\<lambda>i. rng s (4 + i)) else rng s),
            diagnosticsSender := diagnosticsSender s @
              [(1, ''Connection to %s closed (%s)'', [c_str (peerId c), c_str reason])]\<rparr>)"
  using assms
  by (simp add: Close_def SendFrame_sends OnClose_def connection_Break_def
        SendDiagnosticInformationFormatted_def Let_def)

section \<open>The length field\<close>

lemma length_SendFrame_header:
  "length (SendFrame_header fin opcode m len) = (if len < 126 then 2 else if len < 65536 then 4 else 10)"
  by (simp add: SendFrame_header_def)

lemma SendFrame_header_nth0: "SendFrame_header fin opcode m len ! 0 = (if fin then FIN else 0) + opcode"
  by (simp add: SendFrame_header_def Let_def)

lemma decode16:
  "push_bit 8 (unat (of_nat (drop_bit 8 n) :: byte)) + unat (of_nat (n AND 0xFF) :: byte) = n"
  if "n < 65536"
  using that by (simp add: unat_byte_of_nat and255 push_bit_eq_mult drop_bit_eq_div)

lemma decode64:
  assumes "n < 2 ^ 64"
  shows "push_bit 56 (unat (of_nat (drop_bit 56 n) :: byte))
         + push_bit 48 (unat (of_nat (drop_bit 48 n AND 0xFF) :: byte))
         + push_bit 40 (unat (of_nat (drop_bit 40 n AND 0xFF) :: byte))
         + push_bit 32 (unat (of_nat (drop_bit 32 n AND 0xFF) :: byte))
         + push_bit 24 (unat (of_nat (drop_bit 24 n AND 0xFF) :: byte))
         + push_bit 16 (unat (of_nat (drop_bit 16 n AND 0xFF) :: byte))
         + push_bit 8 (unat (of_nat (drop_bit 8 n AND 0xFF) :: byte))
         + unat (of_nat (n AND 0xFF) :: byte) = n"
proof -
  have top: "n div 2 ^ 56 < 256" using assms by (simp add: less_mult_imp_div_less)
  have d: "(n div 2 ^ 56) mod 256 = n div 2 ^ 56" using top by simp
  have s: "\<And>k. n div 2 ^ k = 256 * (n div 2 ^ (k + 8)) + (n div 2 ^ k) mod 256"
    by (simp add: power_add div_mult2_eq)
  have "n = 256 * (n div 2 ^ 8) + n mod 256" by simp
  also have "n div 2 ^ 8 = 256 * (n div 2 ^ 16) + (n div 2 ^ 8) mod 256" using s[of 8] by simp
  also have "n div 2 ^ 16 = 256 * (n div 2 ^ 24) + (n div 2 ^ 16) mod 256" using s[of 16] by simp
  also have "n div 2 ^ 24 = 256 * (n div 2 ^ 32) + (n div 2 ^ 24) mod 256" using s[of 24] by simp
  also have "n div 2 ^ 32 = 256 * (n div 2 ^ 40) + (n div 2 ^ 32) mod 256" using s[of 32] by simp
  also have "n div 2 ^ 40 = 256 * (n div 2 ^ 48) + (n div 2 ^ 40) mod 256" using s[of 40] by simp
  also have "n div 2 ^ 48 = 256 * (n div 2 ^ 56) + (n div 2 ^ 48) mod 256" using s[of 48] by simp
  finally have e: "n = 256 * (256 * (256 * (256 * (256 * (256 * (256 * (n div 2 ^ 56) + n div 2 ^ 48 mod 256) + n div 2 ^ 40 mod 256) + n div 2 ^ 32 mod 256) + n div 2 ^ 24 mod 256) + n div 2 ^ 16 mod 256) + n div 2 ^ 8 mod 256) + n mod 256" .
  show ?thesis
    apply (simp only: unat_byte_of_nat and255 push_bit_eq_mult drop_bit_eq_div d mod_mod_trivial)
    apply (subst (9) e)
    apply (simp only: algebra_simps)
    apply simp
    done
qed

lemma byte_of_small_neq: "n < 126 \<Longrightarrow> (of_nat n :: byte) \<noteq> 0x7E \<and> (of_nat n :: byte) \<noteq> 0x7F"
proof -
  assume a: "n < 126"
  have "unat (of_nat n :: byte) = n" using a by (simp add: unat_byte_of_nat)
  moreover have "unat (0x7E :: byte) = 126" "unat (0x7F :: byte) = 127" by simp_all
  ultimately show ?thesis
    using a by (metis less_irrefl_nat less_SucI numeral_eq_Suc pred_numeral_simps(3))
qed

lemma lengths_small:
  assumes "len < 126" "m = MASK \<or> m = 0"
  shows "ReceiveData_lengths (SendFrame_header fin opcode m len @ rest) = Some (2 + (if m = 0 then 0 else 4), len)"
  using assms byte_of_small_neq[of len]
  by (auto simp add: ReceiveData_lengths_def SendFrame_header_def nth_append small_plus_MASK
      small_and_not_MASK small_and_MASK bit.conj_disj_distrib2 unat_byte_of_nat MASK_neq0 Let_def)

lemma consts7: "(0x7E + MASK) AND MASK = MASK" "(0x7F + MASK) AND MASK = MASK" 
 "(0x7E + MASK) AND NOT MASK = 0x7E" "(0x7F + MASK) AND NOT MASK = 0x7F"
 "(0x7E::byte) AND MASK = 0" "(0x7F::byte) AND MASK = 0"
 "(0x7E::byte) AND NOT MASK = 0x7E" "(0x7F::byte) AND NOT MASK = 0x7F"
  by (simp_all add: MASK_def)

lemma lengths_medium:
  assumes "\<not> len < 126" "len < 65536" "m = MASK \<or> m = 0"
  shows "ReceiveData_lengths (SendFrame_header fin opcode m len @ rest) = Some (4 + (if m = 0 then 0 else 4), len)"
  using assms decode16[of len]
  by (auto simp add: ReceiveData_lengths_def SendFrame_header_def nth_append consts7 MASK_neq0 Let_def)

lemma lengths_large:
  assumes "\<not> len < 65536" "len < 2 ^ 64" "m = MASK \<or> m = 0"
  shows "ReceiveData_lengths (SendFrame_header fin opcode m len @ rest) = Some (10 + (if m = 0 then 0 else 4), len)"
  using assms decode64[of len]
  by (auto simp add: ReceiveData_lengths_def SendFrame_header_def nth_append consts7 MASK_neq0 Let_def)

lemma lengths_header:
  assumes "len < 2 ^ 64" "m = MASK \<or> m = 0"
  shows "ReceiveData_lengths (SendFrame_header fin opcode m len @ rest) =
    Some (length (SendFrame_header fin opcode m len) + (if m = 0 then 0 else 4), len)"
proof (cases "len < 126")
  case True
  then show ?thesis
    using lengths_small [OF True assms(2)] by (simp add: length_SendFrame_header)
next
  case False
  show ?thesis
  proof (cases "len < 65536")
    case True
    then show ?thesis
      using lengths_medium [OF False True assms(2)] False by (simp add: length_SendFrame_header)
  next
    case large: False
    then show ?thesis
      using lengths_large [OF large assms] False by (simp add: length_SendFrame_header)
  qed
qed

lemma unmask_roundtrip:
  assumes "length k = 4" "length h \<ge> 0"
  shows "ReceiveFrame_data Server (length h + 4) (length p) (h @ k @ SendFrame_masked k p @ rest) = Inr p"
proof (cases "p = []")
  case True
  then show ?thesis by (simp add: ReceiveFrame_data_def)
next
  case False
  have "map (\<lambda>i. chr ((h @ k @ SendFrame_masked k p @ rest) ! (length h + 4 + i)
                 XOR (h @ k @ SendFrame_masked k p @ rest) ! (length h + 4 - 4 + (i mod 4))))
            [0..<length p] = p"
    using assms(1)
    by (intro nth_equalityI)
      (simp_all add: nth_append length_SendFrame_masked nth_SendFrame_masked xor.assoc chr_u8)
  then show ?thesis
    using False assms(1) by (simp add: ReceiveFrame_data_def length_SendFrame_masked)
qed

lemma masked_twice: "map chr (SendFrame_masked k (map chr (SendFrame_masked k p))) = p"
  by (rule nth_equalityI)
    (simp_all add: length_SendFrame_masked nth_SendFrame_masked u8_chr chr_u8 xor.assoc)

section \<open>Masking\<close>

text \<open>
  C8. The masking transform of \<open>SendFrame\<close> (byte \<open>i\<close> of the payload XOR byte
  \<open>i mod 4\<close> of the key), applied twice with the same 4-byte key, gives back the
  payload. The second conjunct is the round trip on the wire: when a client's
  \<open>SendFrame\<close> has sent a frame for a payload (shorter than \<open>2 ^ 64\<close>, as every
  \<open>std::string\<close> is) and that frame is at the head of a server's reassembly
  buffer, the lengths that the server's \<open>ReceiveData\<close> reads from it and the
  unmasking of \<open>ReceiveFrame\<close> recover exactly that payload.
\<close>

theorem mask_involution_and_roundtrip:
  "(length k = 4 \<longrightarrow> map chr (SendFrame_masked k (map chr (SendFrame_masked k payload))) = payload)
   \<and> (role s = Client \<and> connection s = Some c \<and> length payload < 2 ^ 64 \<longrightarrow>
        calls_of (SendFrame fin opcode payload s)
          = calls c @ [SendData (SendFrame_frame Client (map (rng s) [0..<4]) fin opcode payload)]
        \<and> ReceiveData_lengths
             (SendFrame_frame Client (map (rng s) [0..<4]) fin opcode payload @ rest)
          = Some (length (SendFrame_header fin opcode MASK (length payload)) + 4, length payload)
        \<and> ReceiveFrame_data Server
             (length (SendFrame_header fin opcode MASK (length payload)) + 4) (length payload)
             (SendFrame_frame Client (map (rng s) [0..<4]) fin opcode payload @ rest)
          = Inr payload)"
proof (intro conjI impI)
  show "map chr (SendFrame_masked k (map chr (SendFrame_masked k payload))) = payload"
    by (rule masked_twice)
next
  assume a: "role s = Client \<and> connection s = Some c \<and> length payload < 2 ^ 64"
  then show "calls_of (SendFrame fin opcode payload s)
          = calls c @ [SendData (SendFrame_frame Client (map (rng s) [0..<4]) fin opcode payload)]"
    by (simp add: SendFrame_sends calls_of_def)
  from a show "ReceiveData_lengths
             (SendFrame_frame Client (map (rng s) [0..<4]) fin opcode payload @ rest)
          = Some (length (SendFrame_header fin opcode MASK (length payload)) + 4, length payload)"
    using lengths_header [of "length payload" MASK fin opcode]
    by (simp add: SendFrame_frame_def MASK_neq0)
  show "ReceiveFrame_data Server
             (length (SendFrame_header fin opcode MASK (length payload)) + 4) (length payload)
             (SendFrame_frame Client (map (rng s) [0..<4]) fin opcode payload @ rest)
          = Inr payload"
    using unmask_roundtrip [of "map (rng s) [0..<4]" "SendFrame_header fin opcode MASK (length payload)" payload rest]
    by (simp add: SendFrame_frame_def)
qed

theorem mask_involution_and_roundtrip_witness:
  "length [0x37, 0xFA, 0x21, 0x3D :: byte] = 4
   \<and> role (example_engine Client) = Client
   \<and> connection (example_engine Client) = Some \<lparr>peerId = ''peer'', calls = []\<rparr>
   \<and> length ''Hello'' < (2::nat) ^ 64
   \<and> map chr (SendFrame_masked [0x37, 0xFA, 0x21, 0x3D]
                 (map chr (SendFrame_masked [0x37, 0xFA, 0x21, 0x3D] ''Hello''))) = ''Hello''
   \<and> calls_of (SendFrame True OPCODE_TEXT ''Hello'' (example_engine Client))
       = [SendData [0x81, 0x85, 0x37, 0xFA, 0x21, 0x3D, 0x7F, 0x9F, 0x4D, 0x51, 0x58]]
   \<and> ReceiveData_lengths [0x81, 0x85, 0x37, 0xFA, 0x21, 0x3D, 0x7F, 0x9F, 0x4D, 0x51, 0x58]
       = Some (6, 5)
   \<and> ReceiveFrame_data Server 6 5 [0x81, 0x85, 0x37, 0xFA, 0x21, 0x3D, 0x7F, 0x9F, 0x4D, 0x51, 0x58]
       = Inr ''Hello''"
proof -
  have h1: "length [0x37, 0xFA, 0x21, 0x3D :: byte] = 4"
    by simp
  have h2: "role (example_engine Client) = Client
      \<and> connection (example_engine Client) = Some \<lparr>peerId = ''peer'', calls = []\<rparr>
      \<and> length ''Hello'' < (2::nat) ^ 64"
    by (simp add: example_engine_def)
  have e1: "SendFrame_frame Client (map (rng (example_engine Client)) [0..<4]) True OPCODE_TEXT
              ''Hello''
            = [0x81, 0x85, 0x37, 0xFA, 0x21, 0x3D, 0x7F, 0x9F, 0x4D, 0x51, 0x58]"
    by code_simp
  have e2: "length (SendFrame_header True OPCODE_TEXT MASK 5) + 4 = 6"
    by code_simp
  have e3: "length ''Hello'' = 5"
    by simp
  have e4: "calls \<lparr>peerId = ''peer'', calls = []\<rparr> = []"
    by simp
  note t = mask_involution_and_roundtrip [of "[0x37, 0xFA, 0x21, 0x3D]" "''Hello''"
          "example_engine Client" "\<lparr>peerId = ''peer'', calls = []\<rparr>" True OPCODE_TEXT "[]"]
  from t h1 h2 show ?thesis
    unfolding e1 e2 e3 e4 append_Nil append_Nil2 by blast
qed

lemma header_mask_bit_set: "SendFrame_header fin opcode MASK len ! 1 AND MASK = MASK"
proof (cases "len < 126")
  case True
  then have "len < 128" by simp
  then show ?thesis
    using True by (simp add: SendFrame_header_def Let_def small_plus_MASK bit.conj_disj_distrib2)
next
  case False
  then show ?thesis
    by (simp add: SendFrame_header_def Let_def consts7)
qed

lemma header_mask_bit_clear: "SendFrame_header fin opcode 0 len ! 1 AND MASK = 0"
proof (cases "len < 126")
  case True
  then have "len < 128" by simp
  then show ?thesis
    using True by (simp add: SendFrame_header_def Let_def small_and_MASK)
next
  case False
  then show ?thesis
    by (simp add: SendFrame_header_def Let_def consts7)
qed

lemma header_length_octet:
  assumes "m = MASK \<or> m = 0"
  shows "SendFrame_header fin opcode m len ! 1 AND NOT MASK
           = (if len < 126 then of_nat len else if len < 65536 then 0x7E else 0x7F)"
proof (cases "len < 126")
  case True
  then have "len < 128" by simp
  then show ?thesis
    using True assms
    by (auto simp add: SendFrame_header_def Let_def small_plus_MASK small_and_not_MASK
        bit.conj_disj_distrib2)
next
  case False
  then show ?thesis
    using assms by (auto simp add: SendFrame_header_def Let_def consts7)
qed

lemma length_SendFrame_header_ge2: "2 \<le> length (SendFrame_header fin opcode m len)"
  by (simp add: length_SendFrame_header)

section \<open>Outbound frames\<close>

text \<open>
  C6. Every frame that \<open>SendFrame\<close> hands to the transport is masked if and only
  if the role is Client. For a client the frame is the header with the MASK bit
  (bit 7 of the second octet) set, then the four bytes of the masking key just
  drawn from the random generator, then the payload with byte \<open>i\<close> XORed with key
  byte \<open>i mod 4\<close>. For a server the frame is the header with the MASK bit clear,
  then the payload unchanged.
\<close>

theorem SendFrame_masks_iff_client:
  assumes "connection s = Some c"
  shows "(role s = Client \<longrightarrow>
            calls_of (SendFrame fin opcode payload s)
              = calls c @ [SendData (SendFrame_header fin opcode MASK (length payload)
                                      @ map (rng s) [0..<4]
                                      @ SendFrame_masked (map (rng s) [0..<4]) payload)]
            \<and> length (map (rng s) [0..<4]) = 4
            \<and> (\<forall>i < length payload.
                  SendFrame_masked (map (rng s) [0..<4]) payload ! i
                    = u8 (payload ! i) XOR map (rng s) [0..<4] ! (i mod 4)))
       \<and> (role s = Server \<longrightarrow>
            calls_of (SendFrame fin opcode payload s)
              = calls c @ [SendData (SendFrame_header fin opcode 0 (length payload)
                                      @ map u8 payload)])
       \<and> (SendFrame_header fin opcode MASK (length payload) @ r1) ! 1 AND MASK = MASK
       \<and> (SendFrame_header fin opcode 0 (length payload) @ r2) ! 1 AND MASK = 0
       \<and> (SendFrame_frame (role s) (map (rng s) [0..<4]) fin opcode payload ! 1 AND MASK \<noteq> 0
            \<longleftrightarrow> role s = Client)"
proof -
  have m: "(SendFrame_header fin opcode MASK (length payload) @ r1) ! 1 AND MASK = MASK"
    using length_SendFrame_header_ge2 [of fin opcode MASK "length payload"]
      header_mask_bit_set [of fin opcode "length payload"]
    by (simp add: nth_append)
  have u: "(SendFrame_header fin opcode 0 (length payload) @ r2) ! 1 AND MASK = 0"
    using length_SendFrame_header_ge2 [of fin opcode 0 "length payload"]
      header_mask_bit_clear [of fin opcode "length payload"]
    by (simp add: nth_append)
  have i: "SendFrame_frame (role s) (map (rng s) [0..<4]) fin opcode payload ! 1 AND MASK \<noteq> 0
            \<longleftrightarrow> role s = Client"
    using length_SendFrame_header_ge2 [of fin opcode MASK "length payload"]
      length_SendFrame_header_ge2 [of fin opcode 0 "length payload"]
      header_mask_bit_set [of fin opcode "length payload"]
      header_mask_bit_clear [of fin opcode "length payload"]
    by (cases "role s") (simp_all add: SendFrame_frame_def nth_append MASK_neq0)
  have c: "role s = Client \<longrightarrow>
            calls_of (SendFrame fin opcode payload s)
              = calls c @ [SendData (SendFrame_header fin opcode MASK (length payload)
                                      @ map (rng s) [0..<4]
                                      @ SendFrame_masked (map (rng s) [0..<4]) payload)]"
    using assms by (simp add: SendFrame_sends calls_of_def SendFrame_frame_def)
  have sv: "role s = Server \<longrightarrow>
            calls_of (SendFrame fin opcode payload s)
              = calls c @ [SendData (SendFrame_header fin opcode 0 (length payload)
                                      @ map u8 payload)]"
    using assms by (simp add: SendFrame_sends calls_of_def SendFrame_frame_def)
  have k: "\<forall>i < length payload.
                  SendFrame_masked (map (rng s) [0..<4]) payload ! i
                    = u8 (payload ! i) XOR map (rng s) [0..<4] ! (i mod 4)"
    by (intro allI impI) (rule nth_SendFrame_masked)
  show ?thesis
    using m u i c sv k by simp
qed

theorem SendFrame_masks_iff_client_witness:
  "connection (example_engine Client) = Some \<lparr>peerId = ''peer'', calls = []\<rparr>
   \<and> role (example_engine Client) = Client
   \<and> calls_of (SendFrame True OPCODE_PING ''abc'' (example_engine Client))
       = [SendData [0x89, 0x83, 0x37, 0xFA, 0x21, 0x3D, 0x56, 0x98, 0x42]]
   \<and> (0x83 :: byte) AND MASK = MASK
   \<and> connection (example_engine Server) = Some \<lparr>peerId = ''peer'', calls = []\<rparr>
   \<and> role (example_engine Server) = Server
   \<and> calls_of (SendFrame True OPCODE_PING ''abc'' (example_engine Server))
       = [SendData [0x89, 0x03, 0x61, 0x62, 0x63]]
   \<and> (0x03 :: byte) AND MASK = 0"
proof -
  have h1: "connection (example_engine Client) = Some \<lparr>peerId = ''peer'', calls = []\<rparr>"
    and h2: "role (example_engine Client) = Client"
    and h3: "connection (example_engine Server) = Some \<lparr>peerId = ''peer'', calls = []\<rparr>"
    and h4: "role (example_engine Server) = Server"
    by (simp_all add: example_engine_def)
  have e1: "SendFrame_header True OPCODE_PING MASK (length ''abc'')
              @ map (rng (example_engine Client)) [0..<4]
              @ SendFrame_masked (map (rng (example_engine Client)) [0..<4]) ''abc''
            = [0x89, 0x83, 0x37, 0xFA, 0x21, 0x3D, 0x56, 0x98, 0x42]"
    by code_simp
  have e2: "SendFrame_header True OPCODE_PING 0 (length ''abc'') @ map u8 ''abc''
            = [0x89, 0x03, 0x61, 0x62, 0x63]"
    by code_simp
  have e3: "(0x83 :: byte) AND MASK = MASK" "(0x03 :: byte) AND MASK = 0"
    by (simp_all add: MASK_def)
  note t1 = SendFrame_masks_iff_client [OF h1, of True OPCODE_PING "''abc''" "[]" "[]"]
  note t2 = SendFrame_masks_iff_client [OF h3, of True OPCODE_PING "''abc''" "[]" "[]"]
  have c1: "calls_of (SendFrame True OPCODE_PING ''abc'' (example_engine Client))
       = [SendData [0x89, 0x83, 0x37, 0xFA, 0x21, 0x3D, 0x56, 0x98, 0x42]]"
    using t1 h2 unfolding e1 by simp
  have c2: "calls_of (SendFrame True OPCODE_PING ''abc'' (example_engine Server))
       = [SendData [0x89, 0x03, 0x61, 0x62, 0x63]]"
    using t2 h4 unfolding e2 by simp
  show ?thesis
    using h1 h2 h3 h4 c1 c2 e3 by (simp only: simp_thms)
qed

text \<open>
  C7. For a payload of length \<open>L\<close> (below \<open>2 ^ 64\<close>, as every \<open>std::string\<close> is)
  the frame that \<open>SendFrame\<close> sends starts with a header of one octet followed
  by the length in its shortest form: 1 octet when \<open>L < 126\<close>, 3 octets when
  \<open>126 \<le> L < 65536\<close>, 9 octets otherwise; and the lengths that the loop of
  \<open>ReceiveData\<close> decodes from that frame are this header length (plus 4 for the
  key of a client frame) and exactly \<open>L\<close>.
\<close>

theorem SendFrame_length_field:
  assumes "connection s = Some c" and "length payload < 2 ^ 64"
  shows "calls_of (SendFrame fin opcode payload s)
           = calls c @ [SendData (SendFrame_frame (role s) (map (rng s) [0..<4]) fin opcode payload)]
       \<and> take (length (SendFrame_header fin opcode (if role s = Client then MASK else 0)
                          (length payload)))
               (SendFrame_frame (role s) (map (rng s) [0..<4]) fin opcode payload)
           = SendFrame_header fin opcode (if role s = Client then MASK else 0) (length payload)
       \<and> length (SendFrame_header fin opcode (if role s = Client then MASK else 0)
                    (length payload))
           = 1 + (if length payload < 126 then 1 else if length payload < 65536 then 3 else 9)
       \<and> SendFrame_header fin opcode (if role s = Client then MASK else 0) (length payload) ! 1
             AND NOT MASK
           = (if length payload < 126 then of_nat (length payload)
              else if length payload < 65536 then 0x7E else 0x7F)
       \<and> ReceiveData_lengths
             (SendFrame_frame (role s) (map (rng s) [0..<4]) fin opcode payload @ rest)
           = Some (1 + (if length payload < 126 then 1
                        else if length payload < 65536 then 3 else 9)
                     + (if role s = Client then 4 else 0),
                   length payload)"
proof -
  have a: "calls_of (SendFrame fin opcode payload s)
           = calls c @ [SendData (SendFrame_frame (role s) (map (rng s) [0..<4]) fin opcode payload)]"
    using assms(1) by (simp add: SendFrame_sends calls_of_def)
  have b: "take (length (SendFrame_header fin opcode (if role s = Client then MASK else 0)
                          (length payload)))
               (SendFrame_frame (role s) (map (rng s) [0..<4]) fin opcode payload)
           = SendFrame_header fin opcode (if role s = Client then MASK else 0) (length payload)"
    by (simp add: SendFrame_frame_def)
  have l: "length (SendFrame_header fin opcode (if role s = Client then MASK else 0)
                    (length payload))
           = 1 + (if length payload < 126 then 1 else if length payload < 65536 then 3 else 9)"
    by (simp add: length_SendFrame_header)
  have d: "ReceiveData_lengths
             (SendFrame_frame (role s) (map (rng s) [0..<4]) fin opcode payload @ rest)
           = Some (1 + (if length payload < 126 then 1
                        else if length payload < 65536 then 3 else 9)
                     + (if role s = Client then 4 else 0),
                   length payload)"
    using lengths_header [OF assms(2), of MASK fin opcode]
      lengths_header [OF assms(2), of 0 fin opcode]
    by (cases "role s") (simp_all add: SendFrame_frame_def length_SendFrame_header MASK_neq0)
  have o: "SendFrame_header fin opcode (if role s = Client then MASK else 0) (length payload) ! 1
             AND NOT MASK
           = (if length payload < 126 then of_nat (length payload)
              else if length payload < 65536 then 0x7E else 0x7F)"
    by (rule header_length_octet) simp
  show ?thesis
    using a b l o d by (simp only: simp_thms)
qed

theorem SendFrame_length_field_witness:
  "connection (example_engine Server) = Some \<lparr>peerId = ''peer'', calls = []\<rparr>
   \<and> length ''abc'' < (2::nat) ^ 64
   \<and> calls_of (SendFrame True OPCODE_TEXT ''abc'' (example_engine Server))
       = [SendData [0x81, 0x03, 0x61, 0x62, 0x63]]
   \<and> ReceiveData_lengths [0x81, 0x03, 0x61, 0x62, 0x63] = Some (2, 3)
   \<and> length (replicate 126 CHR ''x'') < (2::nat) ^ 64
   \<and> ReceiveData_lengths
        (SendFrame_frame Server (map (rng (example_engine Server)) [0..<4]) True OPCODE_TEXT
           (replicate 126 CHR ''x'')) = Some (4, 126)
   \<and> connection (example_engine Client) = Some \<lparr>peerId = ''peer'', calls = []\<rparr>
   \<and> length (replicate 65536 CHR ''x'') < (2::nat) ^ 64
   \<and> ReceiveData_lengths
        (SendFrame_frame Client (map (rng (example_engine Client)) [0..<4]) True OPCODE_TEXT
           (replicate 65536 CHR ''x'')) = Some (14, 65536)"
proof -
  have h1: "connection (example_engine Server) = Some \<lparr>peerId = ''peer'', calls = []\<rparr>"
    and h2: "connection (example_engine Client) = Some \<lparr>peerId = ''peer'', calls = []\<rparr>"
    and r1: "role (example_engine Server) = Server"
    and r2: "role (example_engine Client) = Client"
    by (simp_all add: example_engine_def)
  have l1: "length ''abc'' < (2::nat) ^ 64"
    and l2: "length (replicate 126 CHR ''x'') < (2::nat) ^ 64"
    and l3: "length (replicate 65536 CHR ''x'') < (2::nat) ^ 64"
    by simp_all
  have e1: "SendFrame_frame Server (map (rng (example_engine Server)) [0..<4]) True OPCODE_TEXT
              ''abc'' = [0x81, 0x03, 0x61, 0x62, 0x63]"
    by code_simp
  note t1 = SendFrame_length_field [OF h1 l1, of True OPCODE_TEXT "[]"]
  note t2 = SendFrame_length_field [OF h1 l2, of True OPCODE_TEXT "[]"]
  note t3 = SendFrame_length_field [OF h2 l3, of True OPCODE_TEXT "[]"]
  have c1: "calls_of (SendFrame True OPCODE_TEXT ''abc'' (example_engine Server))
       = [SendData [0x81, 0x03, 0x61, 0x62, 0x63]]
     \<and> ReceiveData_lengths [0x81, 0x03, 0x61, 0x62, 0x63] = Some (2, 3)"
    using t1 by (simp add: r1 e1)
  have c2: "ReceiveData_lengths
        (SendFrame_frame Server (map (rng (example_engine Server)) [0..<4]) True OPCODE_TEXT
           (replicate 126 CHR ''x'')) = Some (4, 126)"
    using t2 by (simp add: r1)
  have c3: "ReceiveData_lengths
        (SendFrame_frame Client (map (rng (example_engine Client)) [0..<4]) True OPCODE_TEXT
           (replicate 65536 CHR ''x'')) = Some (14, 65536)"
    using t3 by (simp add: r2)
  show ?thesis
    using h1 h2 l1 l2 l3 c1 c2 c3 by (simp only: simp_thms)
qed

section \<open>What Close, OnClose and ReceiveFrame do\<close>

lemma Close_data_1002: "Close_data 1002 r = CHR 0x03 # CHR 0xEA # r"
  by (simp add: Close_data_def chr_def char_of_def bit_0)

lemma Close_data_1007: "Close_data 1007 r = CHR 0x03 # CHR 0xEF # r"
  by (simp add: Close_data_def chr_def char_of_def bit_0)

lemma Close_data_1009: "Close_data 1009 r = CHR 0x03 # CHR 0xF1 # r"
  by (simp add: Close_data_def chr_def char_of_def bit_0)

lemma Close_data_1005: "Close_data 1005 r = []"
  by (simp add: Close_data_def)

lemma ReceiveFrame_reaches_switch:
  assumes "\<not> closeReceived s"
    and "2 \<le> length (frameReassemblyBuffer s)"
    and "drop_bit 4 (frameReassemblyBuffer s ! 0) AND 0x07 = 0"
    and "(frameReassemblyBuffer s ! 1 AND MASK \<noteq> 0) \<longleftrightarrow> role s = Server"
    and "ReceiveFrame_data (role s) hl pl (frameReassemblyBuffer s) = Inr data"
  shows "ReceiveFrame u hl pl s =
           ReceiveFrame_switch u (frameReassemblyBuffer s ! 0 AND FIN \<noteq> 0)
             (frameReassemblyBuffer s ! 0 AND 0x0F) data s"
  using assms by (cases "role s") (auto simp add: ReceiveFrame_def Let_def)

lemma Close_fail_effects:
  assumes "\<not> closeSent s" "connection s = Some c" "code \<noteq> 1006"
  shows "events_of (Close code reason True s)
           = eventQueue s @ [\<lparr>etype = Type_Close, content = reason, closeCode = Some code\<rparr>]"
    and "calls_of (Close code reason True s)
           = calls c @ [SendData (SendFrame_frame (role s) (map (rng s) [0..<4]) True OPCODE_CLOSE
                                    (Close_data code reason)),
                        Break False]"
  using assms by (simp_all add: Close_fail events_of_def calls_of_def)

lemma Close_fail_keeps:
  assumes "connection s = Some c" "code \<noteq> 1006"
  shows "\<exists>s'. Close code reason True s = Inr s' \<and> receiving s' = receiving s
     \<and> messageReassemblyBuffer s' = messageReassemblyBuffer s
     \<and> frameReassemblyBuffer s' = frameReassemblyBuffer s"
  using assms by (cases "closeSent s") (simp_all add: Close_fail Close_noop)

lemmas opcode_defs =
  OPCODE_CONTINUATION_def OPCODE_TEXT_def OPCODE_BINARY_def OPCODE_CLOSE_def
  OPCODE_PING_def OPCODE_PONG_def

lemma switch_new_message_while_receiving:
  assumes "receiving s \<noteq> Frag_None" "opcode = OPCODE_TEXT \<or> opcode = OPCODE_BINARY"
  shows "ReceiveFrame_switch u fin opcode data s = Close 1002 ''last message incomplete'' True s"
proof -
  have "ReceiveFrame_switch u fin OPCODE_TEXT data s
          = Close 1002 ''last message incomplete'' True s"
    using assms(1) by (simp add: ReceiveFrame_switch_def opcode_defs)
  moreover have "ReceiveFrame_switch u fin OPCODE_BINARY data s
          = Close 1002 ''last message incomplete'' True s"
    using assms(1) by (simp add: ReceiveFrame_switch_def opcode_defs)
  ultimately show ?thesis
    using assms(2) by blast
qed

lemma switch_unexpected_continuation:
  assumes "receiving s = Frag_None" "connection s = Some c"
  shows "ReceiveFrame_switch u fin OPCODE_CONTINUATION data s
           = Close 1002 ''unexpected continuation frame'' True (s\<lparr>messageReassemblyBuffer := []\<rparr>)"
proof (cases "closeSent s")
  case True
  have "s\<lparr>messageReassemblyBuffer := [], receiving := Frag_None\<rparr> = s\<lparr>messageReassemblyBuffer := []\<rparr>"
    using assms(1) by (cases s) simp
  then show ?thesis
    using True assms by (simp add: ReceiveFrame_switch_def Close_noop Let_def opcode_defs)
next
  case False
  then show ?thesis
    using assms by (simp add: ReceiveFrame_switch_def Close_fail Let_def opcode_defs)
qed

lemma switch_text_single:
  assumes "receiving s = Frag_None"
  shows "ReceiveFrame_switch u True OPCODE_TEXT data s = OnTextMessage u data s"
    and "ReceiveFrame_switch u False OPCODE_TEXT data s
           = Inr (s\<lparr>receiving := Frag_Text, messageReassemblyBuffer := data\<rparr>)"
  using assms by (simp_all add: ReceiveFrame_switch_def opcode_defs)

lemma switch_continuation_text:
  assumes "receiving s = Frag_Text"
  shows "ReceiveFrame_switch u True OPCODE_CONTINUATION data s
           = (case OnTextMessage u (messageReassemblyBuffer s @ data)
                     (s\<lparr>messageReassemblyBuffer := messageReassemblyBuffer s @ data\<rparr>) of
                Inl e \<Rightarrow> Inl e
              | Inr s2 \<Rightarrow> Inr (s2\<lparr>receiving := Frag_None, messageReassemblyBuffer := []\<rparr>))"
    and "ReceiveFrame_switch u False OPCODE_CONTINUATION data s
           = Inr (s\<lparr>messageReassemblyBuffer := messageReassemblyBuffer s @ data\<rparr>)"
  using assms by (simp_all add: ReceiveFrame_switch_def opcode_defs Let_def split: sum.splits)

lemma OnTextMessage_effects:
  assumes "connection s = Some c"
  shows "events_of (OnTextMessage u m s)
           = eventQueue s @
               (if u m then [\<lparr>etype = Type_Text, content = m, closeCode = None\<rparr>]
                else if closeSent s then []
                else [\<lparr>etype = Type_Close, content = ''invalid UTF-8 encoding in text message'',
                       closeCode = Some 1007\<rparr>])"
    and "calls_of (OnTextMessage u m s)
           = calls c @
               (if u m \<or> closeSent s then []
                else [SendData (SendFrame_frame (role s) (map (rng s) [0..<4]) True OPCODE_CLOSE
                                  (CHR 0x03 # CHR 0xEF # ''invalid UTF-8 encoding in text message'')),
                      Break False])"
  using assms
  by (simp_all add: OnTextMessage_def events_of_def calls_of_def Close_noop Close_fail
      Close_data_1007)

lemma OnTextMessage_reset_effects:
  shows "events_of (case OnTextMessage u m s of
                Inl e \<Rightarrow> Inl e
              | Inr s2 \<Rightarrow> Inr (s2\<lparr>receiving := Frag_None, messageReassemblyBuffer := []\<rparr>))
          = events_of (OnTextMessage u m s)"
   and "calls_of (case OnTextMessage u m s of
                Inl e \<Rightarrow> Inl e
              | Inr s2 \<Rightarrow> Inr (s2\<lparr>receiving := Frag_None, messageReassemblyBuffer := []\<rparr>))
          = calls_of (OnTextMessage u m s)"
  by (simp_all add: events_of_def calls_of_def split: sum.splits)

lemma SendFrame_frame_nth0:
  "SendFrame_frame r k fin opcode payload ! 0 = (if fin then FIN else 0) + opcode"
  by (simp add: SendFrame_frame_def SendFrame_header_def Let_def)

lemma switch_ping:
  assumes "connection s = Some c"
  shows "ReceiveFrame_switch u fin OPCODE_PING data s =
     Inr (s\<lparr>connection := Some (c\<lparr>calls := calls c @
              [SendData (SendFrame_frame (role s) (map (rng s) [0..<4]) True OPCODE_PONG data)]\<rparr>),
            rng := (if role s = Client then (\<lambda>i. rng s (4 + i)) else rng s),
            eventQueue := eventQueue s @
              [\<lparr>etype = Type_Ping, content = data, closeCode = None\<rparr>]\<rparr>)"
  using assms by (simp add: ReceiveFrame_switch_def opcode_defs SendFrame_sends)

lemma scast_and_mask8: "(scast (x :: byte) :: uint) AND mask 8 = ucast x"
proof (rule bit_word_eqI)
  fix n
  assume n: "n < LENGTH(32)"
  consider "n < 7" | "n = 7" | "8 \<le> n"
    by arith
  then show "bit (scast x AND mask 8 :: uint) n \<longleftrightarrow> bit (ucast x :: uint) n"
  proof cases
    case 1
    then show ?thesis
      using n by (simp add: bit_simps min_def)
  next
    case 2
    then show ?thesis
      by (simp add: bit_simps)
  next
    case 3
    then have "\<not> bit x n"
      using bit_imp_le_length [of x n] by auto
    then show ?thesis
      using 3 by (simp add: bit_simps)
  qed
qed

lemma scast_and_255: "(scast (x :: byte) :: uint) AND 0xFF = ucast x"
  using scast_and_mask8 [of x] by (simp add: mask_eq_exp_minus_1)

lemma scast_push_and: "push_bit 8 (scast (x :: byte) :: uint) AND 0xFF00 = push_bit 8 (ucast x)"
proof -
  have "(0xFF00 :: uint) = push_bit 8 (mask 8)"
    by (simp add: mask_eq_exp_minus_1 push_bit_eq_mult)
  then have "push_bit 8 (scast x :: uint) AND 0xFF00 = push_bit 8 (scast x AND mask 8)"
    by (simp only: push_bit_and)
  then show ?thesis
    by (simp only: scast_and_mask8)
qed

lemma close_code_big_endian:
  "(push_bit 8 (uint_of_char a) AND 0xFF00) + (uint_of_char b AND 0x00FF)
     = (of_nat (256 * unat (u8 a) + unat (u8 b)) :: uint)"
proof -
  have "push_bit 8 (ucast (u8 a) :: uint) = of_nat (256 * unat (u8 a))"
    by (simp add: push_bit_eq_mult)
  moreover have "(ucast (u8 b) :: uint) = of_nat (unat (u8 b))"
    by simp
  ultimately show ?thesis
    unfolding uint_of_char_def scast_and_255 scast_push_and by (simp only: of_nat_add)
qed

lemma OnClose_eq:
  assumes "connection s = Some c"
  shows "OnClose code reason s =
     Inr (s\<lparr>closeReceived := True,
            eventQueue := eventQueue s @
              [\<lparr>etype = Type_Close, content = reason, closeCode = Some code\<rparr>],
            connection := Some (c\<lparr>calls := calls c @ (if closeSent s then [Break False] else [])\<rparr>)\<rparr>)"
  using assms by (cases s) (simp add: OnClose_def connection_Break_def Let_def)

lemma switch_close_accepted:
  assumes "connection s = Some c" "length data < 2 \<or> u (drop 2 data)"
  shows "ReceiveFrame_switch u fin OPCODE_CLOSE data s =
     Inr (s\<lparr>closeReceived := True,
            eventQueue := eventQueue s @
              [\<lparr>etype = Type_Close,
                content = (if 2 \<le> length data then drop 2 data else []),
                closeCode = Some (if 2 \<le> length data
                                  then of_nat (256 * unat (u8 (data ! 0)) + unat (u8 (data ! 1)))
                                  else 1005)\<rparr>],
            connection := Some (c\<lparr>calls := calls c @ (if closeSent s then [Break False] else [])\<rparr>),
            diagnosticsSender := diagnosticsSender s @
              [(1, ''Connection to %s closed by peer'', [c_str (peerId c)])]\<rparr>)"
  using assms
  by (auto simp add: ReceiveFrame_switch_def opcode_defs OnClose_eq close_code_big_endian
      SendDiagnosticInformationFormatted_def Let_def)

lemma switch_close_rejected:
  assumes "2 \<le> length data" "\<not> u (drop 2 data)"
  shows "ReceiveFrame_switch u fin OPCODE_CLOSE data s
           = Close 1007 ''invalid UTF-8 encoding in close reason'' True s"
  using assms by (simp add: ReceiveFrame_switch_def opcode_defs Let_def)

lemma Close_1005_calls:
  assumes "\<not> closeSent s" "connection s = Some c"
  shows "calls_of (Close 1005 reason fail s)
           = calls c @ SendData (if role s = Client then [0x88, 0x80] @ map (rng s) [0..<4]
                                 else [0x88, 0x00])
               # (if fail then [Break False] else if closeReceived s then [Break True] else [])"
  using assms
  by (simp add: Close_def SendFrame_sends OnClose_eq connection_Break_def calls_of_def
        SendDiagnosticInformationFormatted_def Close_data_1005 SendFrame_frame_def
        SendFrame_header_def SendFrame_masked_def FIN_def MASK_def OPCODE_CLOSE_def Let_def)

lemma Close_graceful:
  assumes "\<not> closeSent s" "connection s = Some c" "code \<noteq> 1006"
  shows "Close code reason False s =
     Inr (s\<lparr>closeSent := True,
            connection := Some (c\<lparr>calls := calls c @
              SendData (SendFrame_frame (role s) (map (rng s) [0..<4]) True OPCODE_CLOSE
                           (Close_data code reason))
               # (if closeReceived s then [Break True] else [])\<rparr>),
            rng := (if role s = Client then (\<lambda>i. rng s (4 + i)) else rng s),
            diagnosticsSender := diagnosticsSender s @
              [(1, ''Connection to %s closed (%s)'', [c_str (peerId c), c_str reason])]\<rparr>)"
  using assms
  by (simp add: Close_def SendFrame_sends connection_Break_def
        SendDiagnosticInformationFormatted_def Let_def)

lemma example_receiver_simps:
  "closeReceived (example_receiver r buf rcv msg) = False"
  "closeSent (example_receiver r buf rcv msg) = False"
  "frameReassemblyBuffer (example_receiver r buf rcv msg) = buf"
  "receiving (example_receiver r buf rcv msg) = rcv"
  "messageReassemblyBuffer (example_receiver r buf rcv msg) = msg"
  "role (example_receiver r buf rcv msg) = r"
  "connection (example_receiver r buf rcv msg) = Some \<lparr>peerId = ''peer'', calls = []\<rparr>"
  "eventQueue (example_receiver r buf rcv msg) = []"
  "rng (example_receiver r buf rcv msg) = example_rng"
  by (simp_all add: example_receiver_def example_engine_def)

lemma example_close_frames:
  "SendFrame_frame Server k True OPCODE_CLOSE (CHR 0x03 # CHR 0xEA # ''last message incomplete'')
    = [0x88, 0x19, 0x03, 0xEA] @ map u8 ''last message incomplete''"
  "SendFrame_frame Server k True OPCODE_CLOSE
     (CHR 0x03 # CHR 0xEA # ''unexpected continuation frame'')
    = [0x88, 0x1F, 0x03, 0xEA] @ map u8 ''unexpected continuation frame''"
  "SendFrame_frame Server k True OPCODE_CLOSE
     (CHR 0x03 # CHR 0xEF # ''invalid UTF-8 encoding in text message'')
    = [0x88, 0x28, 0x03, 0xEF] @ map u8 ''invalid UTF-8 encoding in text message''"
  "SendFrame_frame Server k True OPCODE_CLOSE
     (CHR 0x03 # CHR 0xEF # ''invalid UTF-8 encoding in close reason'')
    = [0x88, 0x28, 0x03, 0xEF] @ map u8 ''invalid UTF-8 encoding in close reason''"
  "SendFrame_frame Server k True OPCODE_CLOSE (CHR 0x03 # CHR 0xF1 # ''frame too large'')
    = [0x88, 0x11, 0x03, 0xF1] @ map u8 ''frame too large''"
  by code_simp+

lemma chr_a: "chr 0x61 = CHR ''a''"
  by code_simp

section \<open>The receive loop on examples\<close>

text \<open>
  The masked text frame delivered in one chunk to a server: the loop of
  \<open>ReceiveData\<close> decodes the frame, queues the Text event and leaves the buffer
  empty.
\<close>

lemma example_masked_text_lengths: "ReceiveData_lengths example_masked_text = Some (6, 5)"
  by code_simp

lemma example_masked_text_frame:
  "ReceiveFrame example_IsValidEncoding 6 5
     ((example_engine Server)\<lparr>frameReassemblyBuffer := example_masked_text\<rparr>)
   = Inr ((example_engine Server)\<lparr>frameReassemblyBuffer := example_masked_text,
            eventQueue := [\<lparr>etype = Type_Text, content = ''Hello'', closeCode = None\<rparr>]\<rparr>)"
proof -
  have d: "ReceiveFrame_data Server 6 5 example_masked_text = Inr ''Hello''"
    by code_simp
  have v: "example_IsValidEncoding ''Hello''"
    by code_simp
  show ?thesis
    by (simp add: ReceiveFrame_def Let_def example_engine_def d [unfolded example_masked_text_def]
        v switch_text_single OnTextMessage_def example_masked_text_def OPCODE_TEXT_def FIN_def
        MASK_def ReceiveFrame_switch_def opcode_defs)
qed

lemma scenario_masked_text:
  "ReceiveData example_IsValidEncoding (Suc (Suc 0)) example_masked_text (example_engine Server)
   = Some (Inr ((example_engine Server)
        \<lparr>eventQueue := [\<lparr>etype = Type_Text, content = ''Hello'', closeCode = None\<rparr>]\<rparr>))"
proof -
  have l: "length example_masked_text = 11"
    by (simp add: example_masked_text_def)
  have b: "frameReassemblyBuffer (example_engine Server) = []"
    "connection (example_engine Server) \<noteq> None"
    "maxFrameSize (configuration (example_engine Server)) = 0"
    by (simp_all add: example_engine_def)
  show ?thesis
    by (simp add: ReceiveData_def b example_masked_text_lengths example_masked_text_frame l)
qed

text \<open>
  The loop of \<open>ReceiveData\<close> need not end. With a 64-bit length of \<open>2 ^ 64 - 10\<close>
  the sum of header and payload length wraps to zero; \<open>ReceiveFrame\<close> returns at
  once because a close was received, nothing is erased, and the next iteration
  sees the same buffer. No amount of fuel suffices.
\<close>

lemma example_endless_lengths:
  "ReceiveData_lengths (frameReassemblyBuffer example_endless) = Some (10, 2 ^ 64 - 10)"
  by (simp add: example_endless_def ReceiveData_lengths_def MASK_def Let_def)

lemma ReceiveData_loop_can_run_forever:
  "ReceiveData_loop u fuel example_endless = None"
proof (induction fuel)
  case 0
  show ?case by simp
next
  case (Suc fuel)
  have r: "ReceiveFrame u 10 18446744073709551606 example_endless = Inr example_endless"
    by (simp add: ReceiveFrame_def example_endless_def)
  have l: "length (frameReassemblyBuffer example_endless) = 10"
    by (simp add: example_endless_def)
  have e: "example_endless\<lparr>frameReassemblyBuffer := frameReassemblyBuffer example_endless\<rparr>
             = example_endless"
    by simp
  show ?case
    using Suc by (simp add: example_endless_lengths r l e)
qed

section \<open>The close handshake and the receive path\<close>

text \<open>
  C1, as amended. When \<open>Close(code, reason)\<close>, called with \<open>fail = false\<close> (as the
  public \<open>WebSocket::Close\<close> does) and a code other than 1006, sets \<open>closeSent\<close>
  while \<open>closeReceived\<close> is already true, the close frame is sent and the transport
  is broken with \<open>Break(true)\<close>. When a close frame (one that passes the header
  checks and whose reason, if it has one, is valid UTF-8) is received while
  \<open>closeSent\<close> is already true, the transport is broken with \<open>Break(false)\<close>:
  \<open>OnClose\<close> passes \<open>false\<close> on every path.
\<close>

theorem teardown_on_completed_handshake:
  "(\<not> closeSent s \<and> closeReceived s \<and> connection s = Some c \<and> code \<noteq> 1006 \<longrightarrow>
      WebSocket_Close code reason s = Close code reason False s
      \<and> calls_of (Close code reason False s)
          = calls c @ [SendData (SendFrame_frame (role s) (map (rng s) [0..<4]) True OPCODE_CLOSE
                                   (Close_data code reason)),
                       Break True]
      \<and> (\<exists>s'. Close code reason False s = Inr s' \<and> closeSent s' \<and> closeReceived s'))
   \<and> (closeSent r \<and> \<not> closeReceived r
        \<and> 2 \<le> length (frameReassemblyBuffer r)
        \<and> drop_bit 4 (frameReassemblyBuffer r ! 0) AND 0x07 = 0
        \<and> ((frameReassemblyBuffer r ! 1 AND MASK \<noteq> 0) \<longleftrightarrow> role r = Server)
        \<and> ReceiveFrame_data (role r) hl pl (frameReassemblyBuffer r) = Inr data
        \<and> connection r = Some cr
        \<and> frameReassemblyBuffer r ! 0 AND 0x0F = OPCODE_CLOSE
        \<and> (length data < 2 \<or> u (drop 2 data)) \<longrightarrow>
      calls_of (ReceiveFrame u hl pl r) = calls cr @ [Break False]
      \<and> (\<exists>r'. ReceiveFrame u hl pl r = Inr r' \<and> closeSent r' \<and> closeReceived r'))"
proof (intro conjI impI)
  assume a: "\<not> closeSent s \<and> closeReceived s \<and> connection s = Some c \<and> code \<noteq> 1006"
  then show "WebSocket_Close code reason s = Close code reason False s"
    by (simp add: WebSocket_Close_def)
  from a have e: "Close code reason False s =
     Inr (s\<lparr>closeSent := True,
            connection := Some (c\<lparr>calls := calls c @
              SendData (SendFrame_frame (role s) (map (rng s) [0..<4]) True OPCODE_CLOSE
                           (Close_data code reason))
               # (if closeReceived s then [Break True] else [])\<rparr>),
            rng := (if role s = Client then (\<lambda>i. rng s (4 + i)) else rng s),
            diagnosticsSender := diagnosticsSender s @
              [(1, ''Connection to %s closed (%s)'', [c_str (peerId c), c_str reason])]\<rparr>)"
    by (simp add: Close_graceful)
  show "calls_of (Close code reason False s)
          = calls c @ [SendData (SendFrame_frame (role s) (map (rng s) [0..<4]) True OPCODE_CLOSE
                                   (Close_data code reason)),
                       Break True]"
    using a by (simp add: e calls_of_def)
  show "\<exists>s'. Close code reason False s = Inr s' \<and> closeSent s' \<and> closeReceived s'"
    using a by (simp add: e)
next
  assume b: "closeSent r \<and> \<not> closeReceived r
        \<and> 2 \<le> length (frameReassemblyBuffer r)
        \<and> drop_bit 4 (frameReassemblyBuffer r ! 0) AND 0x07 = 0
        \<and> ((frameReassemblyBuffer r ! 1 AND MASK \<noteq> 0) \<longleftrightarrow> role r = Server)
        \<and> ReceiveFrame_data (role r) hl pl (frameReassemblyBuffer r) = Inr data
        \<and> connection r = Some cr
        \<and> frameReassemblyBuffer r ! 0 AND 0x0F = OPCODE_CLOSE
        \<and> (length data < 2 \<or> u (drop 2 data))"
  then have sw: "ReceiveFrame u hl pl r =
           ReceiveFrame_switch u (frameReassemblyBuffer r ! 0 AND FIN \<noteq> 0) OPCODE_CLOSE data r"
    using ReceiveFrame_reaches_switch [of r hl pl data u] by simp
  from b have acc: "ReceiveFrame_switch u (frameReassemblyBuffer r ! 0 AND FIN \<noteq> 0)
                      OPCODE_CLOSE data r =
     Inr (r\<lparr>closeReceived := True,
            eventQueue := eventQueue r @
              [\<lparr>etype = Type_Close,
                content = (if 2 \<le> length data then drop 2 data else []),
                closeCode = Some (if 2 \<le> length data
                                  then of_nat (256 * unat (u8 (data ! 0)) + unat (u8 (data ! 1)))
                                  else 1005)\<rparr>],
            connection := Some (cr\<lparr>calls := calls cr @ (if closeSent r then [Break False] else [])\<rparr>),
            diagnosticsSender := diagnosticsSender r @
              [(1, ''Connection to %s closed by peer'', [c_str (peerId cr)])]\<rparr>)"
    using switch_close_accepted [of r cr data u] by blast
  show "calls_of (ReceiveFrame u hl pl r) = calls cr @ [Break False]"
    using b by (simp add: sw acc calls_of_def)
  show "\<exists>r'. ReceiveFrame u hl pl r = Inr r' \<and> closeSent r' \<and> closeReceived r'"
    using b by (simp add: sw acc)
qed

theorem teardown_on_completed_handshake_witness:
  "\<not> closeSent example_close_received \<and> closeReceived example_close_received
   \<and> calls_of (WebSocket_Close 1000 ''bye'' example_close_received)
       = [SendData [0x88, 0x05, 0x03, 0xE8, 0x62, 0x79, 0x65], Break True]
   \<and> closeSent example_close_sent \<and> \<not> closeReceived example_close_sent
   \<and> frameReassemblyBuffer example_close_sent ! 0 AND 0x0F = OPCODE_CLOSE
   \<and> ReceiveFrame_data Client 2 0 (frameReassemblyBuffer example_close_sent) = Inr []
   \<and> calls_of (ReceiveFrame example_IsValidEncoding 2 0 example_close_sent) = [Break False]"
proof -
  let ?k = "\<lparr>peerId = ''peer'', calls = []\<rparr>"
  have a: "\<not> closeSent example_close_received \<and> closeReceived example_close_received
           \<and> connection example_close_received = Some ?k \<and> (1000 :: uint) \<noteq> 1006"
    by (simp add: example_close_received_def example_engine_def)
  have d: "ReceiveFrame_data Client 2 0 (frameReassemblyBuffer example_close_sent) = Inr []"
    by code_simp
  have o: "frameReassemblyBuffer example_close_sent ! 0 AND 0x0F = OPCODE_CLOSE"
    by code_simp
  have b: "closeSent example_close_sent \<and> \<not> closeReceived example_close_sent
        \<and> 2 \<le> length (frameReassemblyBuffer example_close_sent)
        \<and> drop_bit 4 (frameReassemblyBuffer example_close_sent ! 0) AND 0x07 = 0
        \<and> ((frameReassemblyBuffer example_close_sent ! 1 AND MASK \<noteq> 0)
             \<longleftrightarrow> role example_close_sent = Server)
        \<and> ReceiveFrame_data (role example_close_sent) 2 0
             (frameReassemblyBuffer example_close_sent) = Inr []
        \<and> connection example_close_sent = Some ?k
        \<and> frameReassemblyBuffer example_close_sent ! 0 AND 0x0F = OPCODE_CLOSE
        \<and> (length ([] :: string) < 2 \<or> example_IsValidEncoding (drop 2 []))"
    by code_simp
  have f: "SendFrame_frame (role example_close_received)
             (map (rng example_close_received) [0..<4]) True OPCODE_CLOSE
             (Close_data 1000 ''bye'')
           = [0x88, 0x05, 0x03, 0xE8, 0x62, 0x79, 0x65]"
    by code_simp
  note t = teardown_on_completed_handshake [where s = example_close_received and c = ?k
      and code = 1000 and reason = "''bye''" and r = example_close_sent and hl = 2 and pl = 0
      and data = "[]" and cr = ?k and u = example_IsValidEncoding]
  from t a have
    "WebSocket_Close 1000 ''bye'' example_close_received
       = Close 1000 ''bye'' False example_close_received
     \<and> calls_of (Close 1000 ''bye'' False example_close_received)
       = calls ?k @ [SendData (SendFrame_frame (role example_close_received)
                                 (map (rng example_close_received) [0..<4]) True OPCODE_CLOSE
                                 (Close_data 1000 ''bye'')),
                     Break True]"
    by blast
  then have r1: "calls_of (WebSocket_Close 1000 ''bye'' example_close_received)
       = [SendData [0x88, 0x05, 0x03, 0xE8, 0x62, 0x79, 0x65], Break True]"
    by (simp add: f)
  from t b have
    "calls_of (ReceiveFrame example_IsValidEncoding 2 0 example_close_sent)
       = calls ?k @ [Break False]"
    by blast
  then have r2: "calls_of (ReceiveFrame example_IsValidEncoding 2 0 example_close_sent)
       = [Break False]"
    by simp
  show ?thesis
    using a b d r1 r2 by (simp only: simp_thms)
qed

text \<open>
  C1 as stated fails in both halves. An engine that has sent a close frame and
  then receives the peer's close frame breaks the transport with \<open>Break(false)\<close>
  and never calls \<open>Break(true)\<close>; and \<open>Close(1006, ...)\<close> on an engine that has
  received a close frame sets \<open>closeSent\<close> and breaks the transport with
  \<open>Break(false)\<close> too.
\<close>

theorem teardown_not_always_graceful:
  "closeSent example_close_sent
   \<and> frameReassemblyBuffer example_close_sent ! 0 AND 0x0F = OPCODE_CLOSE
   \<and> calls_of (ReceiveFrame example_IsValidEncoding 2 0 example_close_sent) = [Break False]
   \<and> Break True \<notin> set (calls_of (ReceiveFrame example_IsValidEncoding 2 0 example_close_sent))
   \<and> closeReceived example_close_received
   \<and> \<not> closeSent example_close_received
   \<and> events_of (Close 1006 ''gone'' False example_close_received)
       = [\<lparr>etype = Type_Close, content = ''gone'', closeCode = Some 1006\<rparr>]
   \<and> calls_of (Close 1006 ''gone'' False example_close_received) = [Break False]
   \<and> Break True \<notin> set (calls_of (Close 1006 ''gone'' False example_close_received))"
  by code_simp

text \<open>
  C2. A received close frame that passes the header checks, with payload \<open>data\<close>.
  With fewer than two bytes of payload (in particular none) the Close event
  carries code 1005 and the empty reason. With two bytes or more and a reason
  (the bytes from the third on) that is valid UTF-8, the event carries the
  big-endian value of the first two bytes and that reason. With an invalid
  reason the engine instead runs
  \<open>Close(1007, "invalid UTF-8 encoding in close reason", true)\<close>, which queues the
  Close event 1007, sends the close frame and breaks the transport, or does
  nothing when a close frame had been sent before. Last conjunct: a close sent
  with code 1005 (in any state \<open>s0\<close> that has not sent a close) is the frame
  0x88 0x00 for a server and 0x88 0x80 followed by the masking key for a client:
  it has no payload.
\<close>

theorem close_frame_codes:
  assumes "\<not> closeReceived s"
    and "2 \<le> length (frameReassemblyBuffer s)"
    and "drop_bit 4 (frameReassemblyBuffer s ! 0) AND 0x07 = 0"
    and "(frameReassemblyBuffer s ! 1 AND MASK \<noteq> 0) \<longleftrightarrow> role s = Server"
    and "ReceiveFrame_data (role s) hl pl (frameReassemblyBuffer s) = Inr data"
    and "connection s = Some c"
    and "frameReassemblyBuffer s ! 0 AND 0x0F = OPCODE_CLOSE"
  shows "(length data < 2 \<longrightarrow>
            events_of (ReceiveFrame u hl pl s)
              = eventQueue s @ [\<lparr>etype = Type_Close, content = [], closeCode = Some 1005\<rparr>])
       \<and> (2 \<le> length data \<and> u (drop 2 data) \<longrightarrow>
            events_of (ReceiveFrame u hl pl s)
              = eventQueue s @
                  [\<lparr>etype = Type_Close, content = drop 2 data,
                    closeCode = Some (of_nat (256 * unat (u8 (data ! 0)) + unat (u8 (data ! 1))))\<rparr>])
       \<and> (2 \<le> length data \<and> \<not> u (drop 2 data) \<longrightarrow>
            ReceiveFrame u hl pl s
              = Close 1007 ''invalid UTF-8 encoding in close reason'' True s
            \<and> (closeSent s \<longrightarrow> ReceiveFrame u hl pl s = Inr s)
            \<and> (\<not> closeSent s \<longrightarrow>
                  events_of (ReceiveFrame u hl pl s)
                    = eventQueue s @
                        [\<lparr>etype = Type_Close,
                          content = ''invalid UTF-8 encoding in close reason'',
                          closeCode = Some 1007\<rparr>]
                  \<and> calls_of (ReceiveFrame u hl pl s)
                    = calls c @ [SendData (SendFrame_frame (role s) (map (rng s) [0..<4]) True
                                   OPCODE_CLOSE
                                   (CHR 0x03 # CHR 0xEF
                                      # ''invalid UTF-8 encoding in close reason'')),
                                 Break False]))
       \<and> (\<not> closeSent s0 \<and> connection s0 = Some c0 \<longrightarrow>
            calls_of (Close 1005 reason fail s0)
              = calls c0 @ SendData (if role s0 = Client
                                     then [0x88, 0x80] @ map (rng s0) [0..<4]
                                     else [0x88, 0x00])
                  # (if fail then [Break False]
                     else if closeReceived s0 then [Break True] else []))"
proof -
  have sw: "ReceiveFrame u hl pl s =
           ReceiveFrame_switch u (frameReassemblyBuffer s ! 0 AND FIN \<noteq> 0) OPCODE_CLOSE data s"
    using ReceiveFrame_reaches_switch [OF assms(1-5), of u] assms(7) by simp
  have a: "events_of (ReceiveFrame u hl pl s)
              = eventQueue s @ [\<lparr>etype = Type_Close, content = [], closeCode = Some 1005\<rparr>]"
    if "length data < 2"
    using that sw switch_close_accepted [OF assms(6), of data u] by (simp add: events_of_def)
  have b: "events_of (ReceiveFrame u hl pl s)
              = eventQueue s @
                  [\<lparr>etype = Type_Close, content = drop 2 data,
                    closeCode = Some (of_nat (256 * unat (u8 (data ! 0)) + unat (u8 (data ! 1))))\<rparr>]"
    if "2 \<le> length data \<and> u (drop 2 data)"
    using that sw switch_close_accepted [OF assms(6), of data u] by (simp add: events_of_def)
  have r: "ReceiveFrame u hl pl s
              = Close 1007 ''invalid UTF-8 encoding in close reason'' True s"
    if "2 \<le> length data \<and> \<not> u (drop 2 data)"
    using that sw by (simp add: switch_close_rejected)
  have fx: "events_of (Close 1007 r True s)
               = eventQueue s @ [\<lparr>etype = Type_Close, content = r, closeCode = Some 1007\<rparr>]
             \<and> calls_of (Close 1007 r True s)
               = calls c @ [SendData (SendFrame_frame (role s) (map (rng s) [0..<4]) True
                                   OPCODE_CLOSE (CHR 0x03 # CHR 0xEF # r)),
                            Break False]"
    if "\<not> closeSent s" for r
    using that assms(6) Close_fail_effects [of s c 1007 r] by (simp add: Close_data_1007)
  have snd: "calls_of (Close 1005 reason fail s0)
              = calls c0 @ SendData (if role s0 = Client
                                     then [0x88, 0x80] @ map (rng s0) [0..<4]
                                     else [0x88, 0x00])
                  # (if fail then [Break False]
                     else if closeReceived s0 then [Break True] else [])"
    if "\<not> closeSent s0 \<and> connection s0 = Some c0"
    using that Close_1005_calls [of s0 c0 reason fail] by blast
  show ?thesis
    using a b r fx snd by (auto simp add: Close_noop)
qed

theorem close_frame_codes_witness:
  "ReceiveFrame_data Server 6 0 example_close_empty = Inr []
   \<and> events_of (ReceiveFrame example_IsValidEncoding 6 0
                  (example_receiver Server example_close_empty Frag_None []))
       = [\<lparr>etype = Type_Close, content = [], closeCode = Some 1005\<rparr>]
   \<and> ReceiveFrame_data Client 2 5 example_close_bye = Inr (CHR 0x03 # CHR 0xE8 # ''bye'')
   \<and> example_IsValidEncoding ''bye''
   \<and> events_of (ReceiveFrame example_IsValidEncoding 2 5
                  (example_receiver Client example_close_bye Frag_None []))
       = [\<lparr>etype = Type_Close, content = ''bye'', closeCode = Some 1000\<rparr>]
   \<and> ReceiveFrame_data Client 2 3 example_close_invalid = Inr [CHR 0x03, CHR 0xE8, CHR 0xC3]
   \<and> \<not> example_IsValidEncoding [CHR 0xC3]
   \<and> events_of (ReceiveFrame example_IsValidEncoding 2 3
                  (example_receiver Client example_close_invalid Frag_None []))
       = [\<lparr>etype = Type_Close, content = ''invalid UTF-8 encoding in close reason'',
           closeCode = Some 1007\<rparr>]
   \<and> \<not> closeSent (example_engine Server)
   \<and> calls_of (Close 1005 ''ignored'' False (example_engine Server)) = [SendData [0x88, 0x00]]"
proof -
  let ?a = "example_receiver Server example_close_empty Frag_None []"
  let ?b = "example_receiver Client example_close_bye Frag_None []"
  let ?c = "example_receiver Client example_close_invalid Frag_None []"
  let ?k = "\<lparr>peerId = ''peer'', calls = []\<rparr>"
  have v: "example_IsValidEncoding ''bye''" "\<not> example_IsValidEncoding [CHR 0xC3]"
    by code_simp+
  have da: "ReceiveFrame_data Server 6 0 example_close_empty = Inr []"
    and db: "ReceiveFrame_data Client 2 5 example_close_bye = Inr (CHR 0x03 # CHR 0xE8 # ''bye'')"
    and dc: "ReceiveFrame_data Client 2 3 example_close_invalid
               = Inr [CHR 0x03, CHR 0xE8, CHR 0xC3]"
    by code_simp+
  have ha: "\<not> closeReceived ?a" "2 \<le> length (frameReassemblyBuffer ?a)"
    "drop_bit 4 (frameReassemblyBuffer ?a ! 0) AND 0x07 = 0"
    "(frameReassemblyBuffer ?a ! 1 AND MASK \<noteq> 0) \<longleftrightarrow> role ?a = Server"
    "ReceiveFrame_data (role ?a) 6 0 (frameReassemblyBuffer ?a) = Inr []"
    "connection ?a = Some ?k"
    "frameReassemblyBuffer ?a ! 0 AND 0x0F = OPCODE_CLOSE"
    using da by (simp_all add: example_receiver_simps example_close_empty_def MASK_def
        OPCODE_CLOSE_def)
  have hb: "\<not> closeReceived ?b" "2 \<le> length (frameReassemblyBuffer ?b)"
    "drop_bit 4 (frameReassemblyBuffer ?b ! 0) AND 0x07 = 0"
    "(frameReassemblyBuffer ?b ! 1 AND MASK \<noteq> 0) \<longleftrightarrow> role ?b = Server"
    "ReceiveFrame_data (role ?b) 2 5 (frameReassemblyBuffer ?b)
       = Inr (CHR 0x03 # CHR 0xE8 # ''bye'')"
    "connection ?b = Some ?k"
    "frameReassemblyBuffer ?b ! 0 AND 0x0F = OPCODE_CLOSE"
    using db by (simp_all add: example_receiver_simps example_close_bye_def MASK_def
        OPCODE_CLOSE_def)
  have hc: "\<not> closeReceived ?c" "2 \<le> length (frameReassemblyBuffer ?c)"
    "drop_bit 4 (frameReassemblyBuffer ?c ! 0) AND 0x07 = 0"
    "(frameReassemblyBuffer ?c ! 1 AND MASK \<noteq> 0) \<longleftrightarrow> role ?c = Server"
    "ReceiveFrame_data (role ?c) 2 3 (frameReassemblyBuffer ?c)
       = Inr [CHR 0x03, CHR 0xE8, CHR 0xC3]"
    "connection ?c = Some ?k"
    "frameReassemblyBuffer ?c ! 0 AND 0x0F = OPCODE_CLOSE"
    using dc by (simp_all add: example_receiver_simps example_close_invalid_def MASK_def
        OPCODE_CLOSE_def)
  have code: "(of_nat (256 * unat (u8 CHR 0x03) + unat (u8 CHR 0xE8)) :: uint) = 1000"
    by (simp add: unat_u8)
  have s0: "\<not> closeSent (example_engine Server)
            \<and> connection (example_engine Server) = Some ?k"
    by (simp add: example_engine_def)
  note ta = close_frame_codes [OF ha, of example_IsValidEncoding "example_engine Server" ?k
      "''ignored''" False]
  note tb = close_frame_codes [OF hb, of example_IsValidEncoding "example_engine Server" ?k
      "''ignored''" False]
  note tc = close_frame_codes [OF hc, of example_IsValidEncoding "example_engine Server" ?k
      "''ignored''" False]
  have pa: "length ([] :: string) < 2"
    by simp
  from ta pa have
    "events_of (ReceiveFrame example_IsValidEncoding 6 0 ?a)
       = eventQueue ?a @ [\<lparr>etype = Type_Close, content = [], closeCode = Some 1005\<rparr>]"
    by blast
  then have ra: "events_of (ReceiveFrame example_IsValidEncoding 6 0 ?a)
       = [\<lparr>etype = Type_Close, content = [], closeCode = Some 1005\<rparr>]"
    by (simp add: example_receiver_simps)
  from ta s0 have
    "calls_of (Close 1005 ''ignored'' False (example_engine Server))
       = calls ?k @ SendData (if role (example_engine Server) = Client
                              then [0x88, 0x80] @ map (rng (example_engine Server)) [0..<4]
                              else [0x88, 0x00])
           # (if False then [Break False]
              else if closeReceived (example_engine Server) then [Break True] else [])"
    by blast
  then have rs: "calls_of (Close 1005 ''ignored'' False (example_engine Server))
       = [SendData [0x88, 0x00]]"
    by (simp add: example_engine_def)
  have pb: "2 \<le> length (CHR 0x03 # CHR 0xE8 # ''bye'')
            \<and> example_IsValidEncoding (drop 2 (CHR 0x03 # CHR 0xE8 # ''bye''))"
    using v by simp
  from tb pb have
    "events_of (ReceiveFrame example_IsValidEncoding 2 5 ?b)
       = eventQueue ?b @
           [\<lparr>etype = Type_Close, content = drop 2 (CHR 0x03 # CHR 0xE8 # ''bye''),
             closeCode = Some (of_nat (256 * unat (u8 ((CHR 0x03 # CHR 0xE8 # ''bye'') ! 0))
                                       + unat (u8 ((CHR 0x03 # CHR 0xE8 # ''bye'') ! 1))))\<rparr>]"
    by blast
  then have rb: "events_of (ReceiveFrame example_IsValidEncoding 2 5 ?b)
       = [\<lparr>etype = Type_Close, content = ''bye'', closeCode = Some 1000\<rparr>]"
    using code by (simp add: example_receiver_simps)
  have qc: "\<not> closeSent ?c"
    by (simp add: example_receiver_simps)
  have pc: "2 \<le> length [CHR 0x03, CHR 0xE8, CHR 0xC3]
            \<and> \<not> example_IsValidEncoding (drop 2 [CHR 0x03, CHR 0xE8, CHR 0xC3])"
    using v by simp
  from tc pc qc have
    "events_of (ReceiveFrame example_IsValidEncoding 2 3 ?c)
       = eventQueue ?c @
           [\<lparr>etype = Type_Close, content = ''invalid UTF-8 encoding in close reason'',
             closeCode = Some 1007\<rparr>]"
    by blast
  then have rc: "events_of (ReceiveFrame example_IsValidEncoding 2 3 ?c)
       = [\<lparr>etype = Type_Close, content = ''invalid UTF-8 encoding in close reason'',
           closeCode = Some 1007\<rparr>]"
    by (simp add: example_receiver_simps)
  show ?thesis
    using da db dc v ra rb rc rs s0 by (simp only: simp_thms)
qed

text \<open>
  C3. The error rows of the receive state machine. For a frame that passes the
  header checks of \<open>ReceiveFrame\<close> (no close received yet, reserved bits zero,
  masking as the role requires) and whose payload is \<open>data\<close>: when a message is
  in progress (\<open>receiving\<close> is Text or Binary) and the opcode is Text or Binary,
  whatever FIN is, the engine runs \<open>Close(1002, "last message incomplete", true)\<close>;
  when no message is in progress and the opcode is Continuation, whatever FIN is,
  it empties the message buffer and runs
  \<open>Close(1002, "unexpected continuation frame", true)\<close>. What that call does is
  spelled out: if no close frame had been sent it queues the Close event with
  this code and reason, sends the close frame and breaks the transport; if a close
  frame had been sent already, \<open>Close\<close> returns at its first line and nothing
  changes.
\<close>

theorem receive_error_rows:
  fixes s :: Impl and u :: "string \<Rightarrow> bool"
  defines "opcode \<equiv> frameReassemblyBuffer s ! 0 AND 0x0F"
  assumes "\<not> closeReceived s"
    and "2 \<le> length (frameReassemblyBuffer s)"
    and "drop_bit 4 (frameReassemblyBuffer s ! 0) AND 0x07 = 0"
    and "(frameReassemblyBuffer s ! 1 AND MASK \<noteq> 0) \<longleftrightarrow> role s = Server"
    and "ReceiveFrame_data (role s) hl pl (frameReassemblyBuffer s) = Inr data"
    and "connection s = Some c"
  shows "(receiving s \<noteq> Frag_None \<and> (opcode = OPCODE_TEXT \<or> opcode = OPCODE_BINARY) \<longrightarrow>
            ReceiveFrame u hl pl s = Close 1002 ''last message incomplete'' True s
            \<and> (\<not> closeSent s \<longrightarrow>
                  events_of (ReceiveFrame u hl pl s)
                    = eventQueue s @ [\<lparr>etype = Type_Close, content = ''last message incomplete'',
                                       closeCode = Some 1002\<rparr>]
                  \<and> calls_of (ReceiveFrame u hl pl s)
                    = calls c @ [SendData (SendFrame_frame (role s) (map (rng s) [0..<4]) True
                                   OPCODE_CLOSE (CHR 0x03 # CHR 0xEA # ''last message incomplete'')),
                                 Break False])
            \<and> (closeSent s \<longrightarrow> ReceiveFrame u hl pl s = Inr s))
       \<and> (receiving s = Frag_None \<and> opcode = OPCODE_CONTINUATION \<longrightarrow>
            ReceiveFrame u hl pl s
              = Close 1002 ''unexpected continuation frame'' True
                  (s\<lparr>messageReassemblyBuffer := []\<rparr>)
            \<and> (\<not> closeSent s \<longrightarrow>
                  events_of (ReceiveFrame u hl pl s)
                    = eventQueue s @ [\<lparr>etype = Type_Close,
                                       content = ''unexpected continuation frame'',
                                       closeCode = Some 1002\<rparr>]
                  \<and> calls_of (ReceiveFrame u hl pl s)
                    = calls c @ [SendData (SendFrame_frame (role s) (map (rng s) [0..<4]) True
                                   OPCODE_CLOSE
                                   (CHR 0x03 # CHR 0xEA # ''unexpected continuation frame'')),
                                 Break False])
            \<and> (closeSent s \<longrightarrow>
                  ReceiveFrame u hl pl s = Inr (s\<lparr>messageReassemblyBuffer := []\<rparr>)))"
proof -
  have sw: "ReceiveFrame u hl pl s =
           ReceiveFrame_switch u (frameReassemblyBuffer s ! 0 AND FIN \<noteq> 0) opcode data s"
    unfolding opcode_def using assms(2-6) by (rule ReceiveFrame_reaches_switch)
  have row1: "ReceiveFrame u hl pl s = Close 1002 ''last message incomplete'' True s"
    if "receiving s \<noteq> Frag_None \<and> (opcode = OPCODE_TEXT \<or> opcode = OPCODE_BINARY)"
    using that sw by (simp add: switch_new_message_while_receiving)
  have row2: "ReceiveFrame u hl pl s
              = Close 1002 ''unexpected continuation frame'' True
                  (s\<lparr>messageReassemblyBuffer := []\<rparr>)"
    if "receiving s = Frag_None \<and> opcode = OPCODE_CONTINUATION"
    using that sw assms(7) by (simp add: switch_unexpected_continuation)
  have fx1: "events_of (Close 1002 r True s)
               = eventQueue s @ [\<lparr>etype = Type_Close, content = r, closeCode = Some 1002\<rparr>]
             \<and> calls_of (Close 1002 r True s)
               = calls c @ [SendData (SendFrame_frame (role s) (map (rng s) [0..<4]) True
                                   OPCODE_CLOSE (CHR 0x03 # CHR 0xEA # r)),
                            Break False]"
    if "\<not> closeSent s" for r
    using that assms(7) Close_fail_effects [of s c 1002 r] by (simp add: Close_data_1002)
  have fx2: "events_of (Close 1002 r True (s\<lparr>messageReassemblyBuffer := []\<rparr>))
               = eventQueue s @ [\<lparr>etype = Type_Close, content = r, closeCode = Some 1002\<rparr>]
             \<and> calls_of (Close 1002 r True (s\<lparr>messageReassemblyBuffer := []\<rparr>))
               = calls c @ [SendData (SendFrame_frame (role s) (map (rng s) [0..<4]) True
                                   OPCODE_CLOSE (CHR 0x03 # CHR 0xEA # r)),
                            Break False]"
    if "\<not> closeSent s" for r
    using that assms(7) Close_fail_effects [of "s\<lparr>messageReassemblyBuffer := []\<rparr>" c 1002 r]
    by (simp add: Close_data_1002)
  show ?thesis
    using row1 row2 fx1 fx2 by (auto simp add: Close_noop)
qed

theorem receive_error_rows_witness:
  "\<not> closeReceived (example_receiver Server example_masked_text Frag_Text ''abc'')
   \<and> ReceiveFrame_data Server 6 5 example_masked_text = Inr ''Hello''
   \<and> example_masked_text ! 0 AND 0x0F = OPCODE_TEXT
   \<and> events_of (ReceiveFrame example_IsValidEncoding 6 5
                  (example_receiver Server example_masked_text Frag_Text ''abc''))
       = [\<lparr>etype = Type_Close, content = ''last message incomplete'', closeCode = Some 1002\<rparr>]
   \<and> calls_of (ReceiveFrame example_IsValidEncoding 6 5
                  (example_receiver Server example_masked_text Frag_Text ''abc''))
       = [SendData ([0x88, 0x19, 0x03, 0xEA] @ map u8 ''last message incomplete''), Break False]
   \<and> \<not> closeReceived (example_receiver Server example_masked_continuation Frag_None [])
   \<and> ReceiveFrame_data Server 6 5 example_masked_continuation = Inr ''Hello''
   \<and> example_masked_continuation ! 0 AND 0x0F = OPCODE_CONTINUATION
   \<and> events_of (ReceiveFrame example_IsValidEncoding 6 5
                  (example_receiver Server example_masked_continuation Frag_None []))
       = [\<lparr>etype = Type_Close, content = ''unexpected continuation frame'',
           closeCode = Some 1002\<rparr>]
   \<and> calls_of (ReceiveFrame example_IsValidEncoding 6 5
                  (example_receiver Server example_masked_continuation Frag_None []))
       = [SendData ([0x88, 0x1F, 0x03, 0xEA] @ map u8 ''unexpected continuation frame''),
          Break False]"
proof -
  let ?s = "example_receiver Server example_masked_text Frag_Text ''abc''"
  let ?r = "example_receiver Server example_masked_continuation Frag_None []"
  have h1: "\<not> closeReceived ?s"
    and h2: "2 \<le> length (frameReassemblyBuffer ?s)"
    and h3: "drop_bit 4 (frameReassemblyBuffer ?s ! 0) AND 0x07 = 0"
    and h4: "(frameReassemblyBuffer ?s ! 1 AND MASK \<noteq> 0) \<longleftrightarrow> role ?s = Server"
    and h6: "connection ?s = Some \<lparr>peerId = ''peer'', calls = []\<rparr>"
    by (simp_all add: example_receiver_simps example_masked_text_def MASK_def)
  have d: "ReceiveFrame_data Server 6 5 example_masked_text = Inr ''Hello''"
    by code_simp
  then have h5: "ReceiveFrame_data (role ?s) 6 5 (frameReassemblyBuffer ?s) = Inr ''Hello''"
    by (simp add: example_receiver_simps)
  have o: "example_masked_text ! 0 AND 0x0F = OPCODE_TEXT"
    by (simp add: example_masked_text_def OPCODE_TEXT_def)
  have p: "receiving ?s \<noteq> Frag_None
           \<and> (frameReassemblyBuffer ?s ! 0 AND 0x0F = OPCODE_TEXT
                \<or> frameReassemblyBuffer ?s ! 0 AND 0x0F = OPCODE_BINARY)"
    and q: "\<not> closeSent ?s"
    using o by (simp_all add: example_receiver_simps)
  note t = receive_error_rows [OF h1 h2 h3 h4 h5 h6, of example_IsValidEncoding]
  from t p q have
    "events_of (ReceiveFrame example_IsValidEncoding 6 5 ?s)
       = eventQueue ?s @ [\<lparr>etype = Type_Close, content = ''last message incomplete'',
                            closeCode = Some 1002\<rparr>]
     \<and> calls_of (ReceiveFrame example_IsValidEncoding 6 5 ?s)
       = calls \<lparr>peerId = ''peer'', calls = []\<rparr>
           @ [SendData (SendFrame_frame (role ?s) (map (rng ?s) [0..<4]) True OPCODE_CLOSE
                          (CHR 0x03 # CHR 0xEA # ''last message incomplete'')),
              Break False]"
    by blast
  then have row1:
    "events_of (ReceiveFrame example_IsValidEncoding 6 5 ?s)
       = [\<lparr>etype = Type_Close, content = ''last message incomplete'', closeCode = Some 1002\<rparr>]
     \<and> calls_of (ReceiveFrame example_IsValidEncoding 6 5 ?s)
       = [SendData ([0x88, 0x19, 0x03, 0xEA] @ map u8 ''last message incomplete''), Break False]"
    by (simp add: example_receiver_simps example_close_frames)
  have g1: "\<not> closeReceived ?r"
    and g2: "2 \<le> length (frameReassemblyBuffer ?r)"
    and g3: "drop_bit 4 (frameReassemblyBuffer ?r ! 0) AND 0x07 = 0"
    and g4: "(frameReassemblyBuffer ?r ! 1 AND MASK \<noteq> 0) \<longleftrightarrow> role ?r = Server"
    and g6: "connection ?r = Some \<lparr>peerId = ''peer'', calls = []\<rparr>"
    by (simp_all add: example_receiver_simps example_masked_continuation_def MASK_def)
  have d': "ReceiveFrame_data Server 6 5 example_masked_continuation = Inr ''Hello''"
    by code_simp
  then have g5: "ReceiveFrame_data (role ?r) 6 5 (frameReassemblyBuffer ?r) = Inr ''Hello''"
    by (simp add: example_receiver_simps)
  have o': "example_masked_continuation ! 0 AND 0x0F = OPCODE_CONTINUATION"
    by (simp add: example_masked_continuation_def OPCODE_CONTINUATION_def)
  have p': "receiving ?r = Frag_None
            \<and> frameReassemblyBuffer ?r ! 0 AND 0x0F = OPCODE_CONTINUATION"
    and q': "\<not> closeSent ?r"
    using o' by (simp_all add: example_receiver_simps)
  note t' = receive_error_rows [OF g1 g2 g3 g4 g5 g6, of example_IsValidEncoding]
  from t' p' q' have
    "events_of (ReceiveFrame example_IsValidEncoding 6 5 ?r)
       = eventQueue ?r @ [\<lparr>etype = Type_Close, content = ''unexpected continuation frame'',
                            closeCode = Some 1002\<rparr>]
     \<and> calls_of (ReceiveFrame example_IsValidEncoding 6 5 ?r)
       = calls \<lparr>peerId = ''peer'', calls = []\<rparr>
           @ [SendData (SendFrame_frame (role ?r) (map (rng ?r) [0..<4]) True OPCODE_CLOSE
                          (CHR 0x03 # CHR 0xEA # ''unexpected continuation frame'')),
              Break False]"
    by blast
  then have row2:
    "events_of (ReceiveFrame example_IsValidEncoding 6 5 ?r)
       = [\<lparr>etype = Type_Close, content = ''unexpected continuation frame'',
           closeCode = Some 1002\<rparr>]
     \<and> calls_of (ReceiveFrame example_IsValidEncoding 6 5 ?r)
       = [SendData ([0x88, 0x1F, 0x03, 0xEA] @ map u8 ''unexpected continuation frame''),
          Break False]"
    by (simp add: example_receiver_simps example_close_frames)
  show ?thesis
    using h1 d o row1 g1 d' o' row2 by (simp only: simp_thms)
qed

text \<open>
  C4. A complete text message is validated as a whole before it is emitted. The
  message \<open>m\<close> is the payload of a Text frame with FIN set and no message in
  progress, or the message buffer followed by the payload of a Continuation frame
  with FIN set while a text message is in progress; the first two conjuncts show
  that the buffer holds the payloads of the earlier fragments in order. The events
  queued by the frame contain a Text event if and only if \<open>IsValidEncoding m\<close>,
  and that event carries \<open>m\<close>. When validation fails no Text event is queued and
  the engine runs \<open>Close(1007, "invalid UTF-8 encoding in text message", true)\<close>:
  it queues the Close event 1007 and sends the close frame, unless a close frame
  had been sent before, in which case nothing is queued or sent.
\<close>

theorem text_message_validated:
  fixes s :: Impl and u :: "string \<Rightarrow> bool" and hl pl :: nat
  defines "opcode \<equiv> frameReassemblyBuffer s ! 0 AND 0x0F"
    and "fin \<equiv> (frameReassemblyBuffer s ! 0 AND FIN \<noteq> 0)"
    and "R \<equiv> ReceiveFrame u hl pl s"
  assumes "\<not> closeReceived s"
    and "2 \<le> length (frameReassemblyBuffer s)"
    and "drop_bit 4 (frameReassemblyBuffer s ! 0) AND 0x07 = 0"
    and "(frameReassemblyBuffer s ! 1 AND MASK \<noteq> 0) \<longleftrightarrow> role s = Server"
    and "ReceiveFrame_data (role s) hl pl (frameReassemblyBuffer s) = Inr data"
    and "connection s = Some c"
  shows "(opcode = OPCODE_TEXT \<and> receiving s = Frag_None \<and> \<not> fin \<longrightarrow>
            R = Inr (s\<lparr>receiving := Frag_Text, messageReassemblyBuffer := data\<rparr>))
       \<and> (opcode = OPCODE_CONTINUATION \<and> receiving s = Frag_Text \<and> \<not> fin \<longrightarrow>
            R = Inr (s\<lparr>messageReassemblyBuffer := messageReassemblyBuffer s @ data\<rparr>))
       \<and> (\<forall>m. (opcode = OPCODE_TEXT \<and> receiving s = Frag_None \<and> fin \<and> m = data)
              \<or> (opcode = OPCODE_CONTINUATION \<and> receiving s = Frag_Text \<and> fin
                  \<and> m = messageReassemblyBuffer s @ data) \<longrightarrow>
            events_of R
              = eventQueue s @
                  (if u m then [\<lparr>etype = Type_Text, content = m, closeCode = None\<rparr>]
                   else if closeSent s then []
                   else [\<lparr>etype = Type_Close,
                          content = ''invalid UTF-8 encoding in text message'',
                          closeCode = Some 1007\<rparr>])
            \<and> calls_of R
              = calls c @
                  (if u m \<or> closeSent s then []
                   else [SendData (SendFrame_frame (role s) (map (rng s) [0..<4]) True OPCODE_CLOSE
                                    (CHR 0x03 # CHR 0xEF
                                       # ''invalid UTF-8 encoding in text message'')),
                         Break False])
            \<and> ((\<exists>e \<in> set (drop (length (eventQueue s)) (events_of R)). etype e = Type_Text)
                 \<longleftrightarrow> u m))
       \<and> (opcode = OPCODE_TEXT \<and> receiving s = Frag_None \<and> fin \<and> \<not> u data \<longrightarrow>
            R = Close 1007 ''invalid UTF-8 encoding in text message'' True s)"
proof -
  have sw: "R = ReceiveFrame_switch u fin opcode data s"
    unfolding opcode_def fin_def R_def using assms(4-8) by (rule ReceiveFrame_reaches_switch)
  have a: "R = Inr (s\<lparr>receiving := Frag_Text, messageReassemblyBuffer := data\<rparr>)"
    if "opcode = OPCODE_TEXT \<and> receiving s = Frag_None \<and> \<not> fin"
    using that sw by (simp add: switch_text_single)
  have b: "R = Inr (s\<lparr>messageReassemblyBuffer := messageReassemblyBuffer s @ data\<rparr>)"
    if "opcode = OPCODE_CONTINUATION \<and> receiving s = Frag_Text \<and> \<not> fin"
    using that sw by (simp add: switch_continuation_text)
  have single: "R = OnTextMessage u data s"
    if "opcode = OPCODE_TEXT \<and> receiving s = Frag_None \<and> fin"
    using that sw by (simp add: switch_text_single)
  have d: "R = Close 1007 ''invalid UTF-8 encoding in text message'' True s"
    if "opcode = OPCODE_TEXT \<and> receiving s = Frag_None \<and> fin \<and> \<not> u data"
    using that single by (simp add: OnTextMessage_def)
  have ev: "events_of R
              = eventQueue s @
                  (if u m then [\<lparr>etype = Type_Text, content = m, closeCode = None\<rparr>]
                   else if closeSent s then []
                   else [\<lparr>etype = Type_Close,
                          content = ''invalid UTF-8 encoding in text message'',
                          closeCode = Some 1007\<rparr>])
            \<and> calls_of R
              = calls c @
                  (if u m \<or> closeSent s then []
                   else [SendData (SendFrame_frame (role s) (map (rng s) [0..<4]) True OPCODE_CLOSE
                                    (CHR 0x03 # CHR 0xEF
                                       # ''invalid UTF-8 encoding in text message'')),
                         Break False])"
    if "(opcode = OPCODE_TEXT \<and> receiving s = Frag_None \<and> fin \<and> m = data)
              \<or> (opcode = OPCODE_CONTINUATION \<and> receiving s = Frag_Text \<and> fin
                  \<and> m = messageReassemblyBuffer s @ data)" for m
    using that
  proof
    assume h: "opcode = OPCODE_TEXT \<and> receiving s = Frag_None \<and> fin \<and> m = data"
    then have "R = OnTextMessage u m s"
      using single by simp
    then show ?thesis
      using OnTextMessage_effects [OF assms(9), of u m] by simp
  next
    assume h: "opcode = OPCODE_CONTINUATION \<and> receiving s = Frag_Text \<and> fin
                  \<and> m = messageReassemblyBuffer s @ data"
    let ?s1 = "s\<lparr>messageReassemblyBuffer := m\<rparr>"
    have c1: "connection ?s1 = Some c"
      using assms(9) by simp
    have "R = (case OnTextMessage u m ?s1 of
                Inl e \<Rightarrow> Inl e
              | Inr s2 \<Rightarrow> Inr (s2\<lparr>receiving := Frag_None, messageReassemblyBuffer := []\<rparr>))"
      using h sw by (simp add: switch_continuation_text)
    then show ?thesis
      using OnTextMessage_effects [OF c1, of u m] OnTextMessage_reset_effects [of u m ?s1]
      by simp
  qed
  have iff: "(\<exists>e \<in> set (drop (length (eventQueue s)) (events_of R)). etype e = Type_Text)
                 \<longleftrightarrow> u m"
    if "(opcode = OPCODE_TEXT \<and> receiving s = Frag_None \<and> fin \<and> m = data)
              \<or> (opcode = OPCODE_CONTINUATION \<and> receiving s = Frag_Text \<and> fin
                  \<and> m = messageReassemblyBuffer s @ data)" for m
    using ev [OF that] by simp
  show ?thesis
    using a b d ev iff by blast
qed

theorem text_message_validated_witness:
  "ReceiveFrame_data Server 6 5 example_masked_text = Inr ''Hello''
   \<and> example_IsValidEncoding ''Hello''
   \<and> events_of (ReceiveFrame example_IsValidEncoding 6 5
                  (example_receiver Server example_masked_text Frag_None []))
       = [\<lparr>etype = Type_Text, content = ''Hello'', closeCode = None\<rparr>]
   \<and> calls_of (ReceiveFrame example_IsValidEncoding 6 5
                  (example_receiver Server example_masked_text Frag_None [])) = []
   \<and> ReceiveFrame_data Server 6 5 example_masked_continuation = Inr ''Hello''
   \<and> example_IsValidEncoding ''Oh, Hello''
   \<and> events_of (ReceiveFrame example_IsValidEncoding 6 5
                  (example_receiver Server example_masked_continuation Frag_Text ''Oh, ''))
       = [\<lparr>etype = Type_Text, content = ''Oh, Hello'', closeCode = None\<rparr>]
   \<and> ReceiveFrame_data Server 6 2 example_masked_invalid_text = Inr [CHR 0xC3, CHR 0x28]
   \<and> \<not> example_IsValidEncoding [CHR 0xC3, CHR 0x28]
   \<and> events_of (ReceiveFrame example_IsValidEncoding 6 2
                  (example_receiver Server example_masked_invalid_text Frag_None []))
       = [\<lparr>etype = Type_Close, content = ''invalid UTF-8 encoding in text message'',
           closeCode = Some 1007\<rparr>]
   \<and> calls_of (ReceiveFrame example_IsValidEncoding 6 2
                  (example_receiver Server example_masked_invalid_text Frag_None []))
       = [SendData ([0x88, 0x28, 0x03, 0xEF] @ map u8 ''invalid UTF-8 encoding in text message''),
          Break False]"
proof -
  let ?a = "example_receiver Server example_masked_text Frag_None []"
  let ?b = "example_receiver Server example_masked_continuation Frag_Text ''Oh, ''"
  let ?c = "example_receiver Server example_masked_invalid_text Frag_None []"
  let ?k = "\<lparr>peerId = ''peer'', calls = []\<rparr>"
  have v: "example_IsValidEncoding ''Hello''" "example_IsValidEncoding ''Oh, Hello''"
    "\<not> example_IsValidEncoding [CHR 0xC3, CHR 0x28]"
    by code_simp+
  have da: "ReceiveFrame_data Server 6 5 example_masked_text = Inr ''Hello''"
    and db: "ReceiveFrame_data Server 6 5 example_masked_continuation = Inr ''Hello''"
    and dc: "ReceiveFrame_data Server 6 2 example_masked_invalid_text = Inr [CHR 0xC3, CHR 0x28]"
    by code_simp+
  have ha: "\<not> closeReceived ?a" "2 \<le> length (frameReassemblyBuffer ?a)"
    "drop_bit 4 (frameReassemblyBuffer ?a ! 0) AND 0x07 = 0"
    "(frameReassemblyBuffer ?a ! 1 AND MASK \<noteq> 0) \<longleftrightarrow> role ?a = Server"
    "ReceiveFrame_data (role ?a) 6 5 (frameReassemblyBuffer ?a) = Inr ''Hello''"
    "connection ?a = Some ?k"
    using da by (simp_all add: example_receiver_simps example_masked_text_def MASK_def)
  have hb: "\<not> closeReceived ?b" "2 \<le> length (frameReassemblyBuffer ?b)"
    "drop_bit 4 (frameReassemblyBuffer ?b ! 0) AND 0x07 = 0"
    "(frameReassemblyBuffer ?b ! 1 AND MASK \<noteq> 0) \<longleftrightarrow> role ?b = Server"
    "ReceiveFrame_data (role ?b) 6 5 (frameReassemblyBuffer ?b) = Inr ''Hello''"
    "connection ?b = Some ?k"
    using db by (simp_all add: example_receiver_simps example_masked_continuation_def MASK_def)
  have hc: "\<not> closeReceived ?c" "2 \<le> length (frameReassemblyBuffer ?c)"
    "drop_bit 4 (frameReassemblyBuffer ?c ! 0) AND 0x07 = 0"
    "(frameReassemblyBuffer ?c ! 1 AND MASK \<noteq> 0) \<longleftrightarrow> role ?c = Server"
    "ReceiveFrame_data (role ?c) 6 2 (frameReassemblyBuffer ?c) = Inr [CHR 0xC3, CHR 0x28]"
    "connection ?c = Some ?k"
    using dc by (simp_all add: example_receiver_simps example_masked_invalid_text_def MASK_def)
  have pa: "frameReassemblyBuffer ?a ! 0 AND 0x0F = OPCODE_TEXT \<and> receiving ?a = Frag_None
            \<and> frameReassemblyBuffer ?a ! 0 AND FIN \<noteq> 0 \<and> ''Hello'' = ''Hello''"
    by (simp add: example_receiver_simps example_masked_text_def OPCODE_TEXT_def FIN_def)
  have pb: "frameReassemblyBuffer ?b ! 0 AND 0x0F = OPCODE_CONTINUATION
            \<and> receiving ?b = Frag_Text \<and> frameReassemblyBuffer ?b ! 0 AND FIN \<noteq> 0
            \<and> ''Oh, Hello'' = messageReassemblyBuffer ?b @ ''Hello''"
    by (simp add: example_receiver_simps example_masked_continuation_def
        OPCODE_CONTINUATION_def FIN_def)
  have pc: "frameReassemblyBuffer ?c ! 0 AND 0x0F = OPCODE_TEXT \<and> receiving ?c = Frag_None
            \<and> frameReassemblyBuffer ?c ! 0 AND FIN \<noteq> 0
            \<and> [CHR 0xC3, CHR 0x28] = [CHR 0xC3, CHR 0x28]"
    by (simp add: example_receiver_simps example_masked_invalid_text_def OPCODE_TEXT_def FIN_def)
  note ta = text_message_validated [OF ha, of example_IsValidEncoding]
  note tb = text_message_validated [OF hb, of example_IsValidEncoding]
  note tc = text_message_validated [OF hc, of example_IsValidEncoding]
  from ta pa have
    "events_of (ReceiveFrame example_IsValidEncoding 6 5 ?a)
       = eventQueue ?a @
           (if example_IsValidEncoding ''Hello''
            then [\<lparr>etype = Type_Text, content = ''Hello'', closeCode = None\<rparr>]
            else if closeSent ?a then []
            else [\<lparr>etype = Type_Close, content = ''invalid UTF-8 encoding in text message'',
                   closeCode = Some 1007\<rparr>])
     \<and> calls_of (ReceiveFrame example_IsValidEncoding 6 5 ?a)
       = calls ?k @
           (if example_IsValidEncoding ''Hello'' \<or> closeSent ?a then []
            else [SendData (SendFrame_frame (role ?a) (map (rng ?a) [0..<4]) True OPCODE_CLOSE
                             (CHR 0x03 # CHR 0xEF # ''invalid UTF-8 encoding in text message'')),
                  Break False])"
    by blast
  then have ra:
    "events_of (ReceiveFrame example_IsValidEncoding 6 5 ?a)
       = [\<lparr>etype = Type_Text, content = ''Hello'', closeCode = None\<rparr>]
     \<and> calls_of (ReceiveFrame example_IsValidEncoding 6 5 ?a) = []"
    using v by (simp add: example_receiver_simps)
  from tb pb have
    "events_of (ReceiveFrame example_IsValidEncoding 6 5 ?b)
       = eventQueue ?b @
           (if example_IsValidEncoding ''Oh, Hello''
            then [\<lparr>etype = Type_Text, content = ''Oh, Hello'', closeCode = None\<rparr>]
            else if closeSent ?b then []
            else [\<lparr>etype = Type_Close, content = ''invalid UTF-8 encoding in text message'',
                   closeCode = Some 1007\<rparr>])"
    by blast
  then have rb:
    "events_of (ReceiveFrame example_IsValidEncoding 6 5 ?b)
       = [\<lparr>etype = Type_Text, content = ''Oh, Hello'', closeCode = None\<rparr>]"
    using v by (simp add: example_receiver_simps)
  from tc pc have
    "events_of (ReceiveFrame example_IsValidEncoding 6 2 ?c)
       = eventQueue ?c @
           (if example_IsValidEncoding [CHR 0xC3, CHR 0x28]
            then [\<lparr>etype = Type_Text, content = [CHR 0xC3, CHR 0x28], closeCode = None\<rparr>]
            else if closeSent ?c then []
            else [\<lparr>etype = Type_Close, content = ''invalid UTF-8 encoding in text message'',
                   closeCode = Some 1007\<rparr>])
     \<and> calls_of (ReceiveFrame example_IsValidEncoding 6 2 ?c)
       = calls ?k @
           (if example_IsValidEncoding [CHR 0xC3, CHR 0x28] \<or> closeSent ?c then []
            else [SendData (SendFrame_frame (role ?c) (map (rng ?c) [0..<4]) True OPCODE_CLOSE
                             (CHR 0x03 # CHR 0xEF # ''invalid UTF-8 encoding in text message'')),
                  Break False])"
    by blast
  then have rc:
    "events_of (ReceiveFrame example_IsValidEncoding 6 2 ?c)
       = [\<lparr>etype = Type_Close, content = ''invalid UTF-8 encoding in text message'',
           closeCode = Some 1007\<rparr>]
     \<and> calls_of (ReceiveFrame example_IsValidEncoding 6 2 ?c)
       = [SendData ([0x88, 0x28, 0x03, 0xEF] @ map u8 ''invalid UTF-8 encoding in text message''),
          Break False]"
    using v by (simp add: example_receiver_simps example_close_frames)
  show ?thesis
    using da db dc v ra rb rc by (simp only: simp_thms)
qed

text \<open>
  C5. When a chunk is delivered to an engine with a transport, \<open>maxFrameSize\<close> is
  positive and the bytes already buffered plus the size of the chunk exceed it,
  \<open>ReceiveData\<close> runs \<open>Close(1009, "frame too large", true)\<close> and returns before
  the loop, for any amount of fuel: the reassembly buffer is unchanged (the chunk
  is not appended), and the comparison is on the number of buffered bytes, not
  on the payload length of any frame. If no close frame had been sent the Close
  event 1009 is queued, the close frame is sent and the transport is broken;
  otherwise nothing changes.
\<close>

theorem oversize_chunk_closes:
  assumes "connection s = Some c"
    and "0 < maxFrameSize (configuration s)"
    and "maxFrameSize (configuration s) < length (frameReassemblyBuffer s) + length chunk"
  shows "ReceiveData u fuel chunk s = Some (Close 1009 ''frame too large'' True s)
       \<and> (\<exists>s'. ReceiveData u fuel chunk s = Some (Inr s')
                \<and> frameReassemblyBuffer s' = frameReassemblyBuffer s)
       \<and> (closeSent s \<longrightarrow> ReceiveData u fuel chunk s = Some (Inr s))
       \<and> (\<not> closeSent s \<longrightarrow>
            events_of (Close 1009 ''frame too large'' True s)
              = eventQueue s @ [\<lparr>etype = Type_Close, content = ''frame too large'',
                                 closeCode = Some 1009\<rparr>]
            \<and> calls_of (Close 1009 ''frame too large'' True s)
              = calls c @ [SendData (SendFrame_frame (role s) (map (rng s) [0..<4]) True
                                       OPCODE_CLOSE (CHR 0x03 # CHR 0xF1 # ''frame too large'')),
                           Break False])"
proof -
  have r: "ReceiveData u fuel chunk s = Some (Close 1009 ''frame too large'' True s)"
    using assms by (simp add: ReceiveData_def)
  have k: "\<exists>s'. Close 1009 ''frame too large'' True s = Inr s'
                \<and> frameReassemblyBuffer s' = frameReassemblyBuffer s"
    using Close_fail_keeps [OF assms(1), of 1009 "''frame too large''"] by auto
  have fx: "events_of (Close 1009 ''frame too large'' True s)
              = eventQueue s @ [\<lparr>etype = Type_Close, content = ''frame too large'',
                                 closeCode = Some 1009\<rparr>]
            \<and> calls_of (Close 1009 ''frame too large'' True s)
              = calls c @ [SendData (SendFrame_frame (role s) (map (rng s) [0..<4]) True
                                       OPCODE_CLOSE (CHR 0x03 # CHR 0xF1 # ''frame too large'')),
                           Break False]"
    if "\<not> closeSent s"
    using that assms(1) Close_fail_effects [of s c 1009 "''frame too large''"]
    by (simp add: Close_data_1009)
  show ?thesis
    using r k fx by (auto simp add: Close_noop)
qed

theorem oversize_chunk_closes_witness:
  "connection example_capped = Some \<lparr>peerId = ''peer'', calls = []\<rparr>
   \<and> 0 < maxFrameSize (configuration example_capped)
   \<and> maxFrameSize (configuration example_capped)
       < length (frameReassemblyBuffer example_capped) + length (replicate 101 (0 :: byte))
   \<and> ReceiveData example_IsValidEncoding 0 (replicate 101 0) example_capped
       = Some (Close 1009 ''frame too large'' True example_capped)
   \<and> events_of (Close 1009 ''frame too large'' True example_capped)
       = [\<lparr>etype = Type_Close, content = ''frame too large'', closeCode = Some 1009\<rparr>]
   \<and> calls_of (Close 1009 ''frame too large'' True example_capped)
       = [SendData ([0x88, 0x11, 0x03, 0xF1] @ map u8 ''frame too large''), Break False]"
proof -
  let ?k = "\<lparr>peerId = ''peer'', calls = []\<rparr>"
  have h: "connection example_capped = Some ?k"
    "0 < maxFrameSize (configuration example_capped)"
    "maxFrameSize (configuration example_capped)
       < length (frameReassemblyBuffer example_capped) + length (replicate 101 (0 :: byte))"
    by (simp_all add: example_capped_def example_engine_def)
  have q: "\<not> closeSent example_capped"
    by (simp add: example_capped_def example_engine_def)
  note t = oversize_chunk_closes [OF h, of example_IsValidEncoding 0]
  from t q have
    "ReceiveData example_IsValidEncoding 0 (replicate 101 0) example_capped
       = Some (Close 1009 ''frame too large'' True example_capped)
     \<and> events_of (Close 1009 ''frame too large'' True example_capped)
       = eventQueue example_capped
           @ [\<lparr>etype = Type_Close, content = ''frame too large'', closeCode = Some 1009\<rparr>]
     \<and> calls_of (Close 1009 ''frame too large'' True example_capped)
       = calls ?k @ [SendData (SendFrame_frame (role example_capped)
                                 (map (rng example_capped) [0..<4]) True
                                 OPCODE_CLOSE (CHR 0x03 # CHR 0xF1 # ''frame too large'')),
                     Break False]"
    by blast
  then have r:
    "ReceiveData example_IsValidEncoding 0 (replicate 101 0) example_capped
       = Some (Close 1009 ''frame too large'' True example_capped)
     \<and> events_of (Close 1009 ''frame too large'' True example_capped)
       = [\<lparr>etype = Type_Close, content = ''frame too large'', closeCode = Some 1009\<rparr>]
     \<and> calls_of (Close 1009 ''frame too large'' True example_capped)
       = [SendData ([0x88, 0x11, 0x03, 0xF1] @ map u8 ''frame too large''), Break False]"
    by (simp add: example_capped_def example_engine_def example_close_frames)
  show ?thesis
    using h r by (simp only: simp_thms)
qed

text \<open>
  C10. A received Ping frame that passes the header checks is never treated as a
  protocol error: whatever its FIN bit and however long its payload (and even
  after a close frame has been sent), the engine sends one frame built by
  \<open>SendFrame(true, OPCODE_PONG, data)\<close>, whose first octet is 0x8A (FIN set, opcode
  Pong) and whose payload is the payload received, and queues a Ping event with
  that payload. Nothing in the hypotheses restricts FIN or the payload length.
\<close>

theorem ping_always_answered:
  assumes "\<not> closeReceived s"
    and "2 \<le> length (frameReassemblyBuffer s)"
    and "drop_bit 4 (frameReassemblyBuffer s ! 0) AND 0x07 = 0"
    and "(frameReassemblyBuffer s ! 1 AND MASK \<noteq> 0) \<longleftrightarrow> role s = Server"
    and "ReceiveFrame_data (role s) hl pl (frameReassemblyBuffer s) = Inr data"
    and "connection s = Some c"
    and "frameReassemblyBuffer s ! 0 AND 0x0F = OPCODE_PING"
  shows "ReceiveFrame u hl pl s =
     Inr (s\<lparr>connection := Some (c\<lparr>calls := calls c @
              [SendData (SendFrame_frame (role s) (map (rng s) [0..<4]) True OPCODE_PONG data)]\<rparr>),
            rng := (if role s = Client then (\<lambda>i. rng s (4 + i)) else rng s),
            eventQueue := eventQueue s @
              [\<lparr>etype = Type_Ping, content = data, closeCode = None\<rparr>]\<rparr>)
     \<and> SendFrame_frame (role s) (map (rng s) [0..<4]) True OPCODE_PONG data ! 0 = 0x8A
     \<and> events_of (ReceiveFrame u hl pl s)
         = eventQueue s @ [\<lparr>etype = Type_Ping, content = data, closeCode = None\<rparr>]
     \<and> calls_of (ReceiveFrame u hl pl s)
         = calls c @ [SendData (SendFrame_frame (role s) (map (rng s) [0..<4]) True OPCODE_PONG
                                  data)]"
proof -
  have sw: "ReceiveFrame u hl pl s =
           ReceiveFrame_switch u (frameReassemblyBuffer s ! 0 AND FIN \<noteq> 0) OPCODE_PING data s"
    using ReceiveFrame_reaches_switch [OF assms(1-5), of u] assms(7) by simp
  have r: "ReceiveFrame u hl pl s =
     Inr (s\<lparr>connection := Some (c\<lparr>calls := calls c @
              [SendData (SendFrame_frame (role s) (map (rng s) [0..<4]) True OPCODE_PONG data)]\<rparr>),
            rng := (if role s = Client then (\<lambda>i. rng s (4 + i)) else rng s),
            eventQueue := eventQueue s @
              [\<lparr>etype = Type_Ping, content = data, closeCode = None\<rparr>]\<rparr>)"
    using sw switch_ping [OF assms(6)] by simp
  have f: "SendFrame_frame (role s) (map (rng s) [0..<4]) True OPCODE_PONG data ! 0 = 0x8A"
    by (simp add: SendFrame_frame_nth0 FIN_def OPCODE_PONG_def)
  show ?thesis
    using r f by (simp add: events_of_def calls_of_def)
qed

theorem ping_always_answered_witness:
  "example_long_ping ! 0 AND FIN = 0
   \<and> example_long_ping ! 0 AND 0x0F = OPCODE_PING
   \<and> ReceiveFrame_data Client 4 126 example_long_ping = Inr (replicate 126 CHR ''a'')
   \<and> events_of (ReceiveFrame example_IsValidEncoding 4 126
                  (example_receiver Client example_long_ping Frag_None []))
       = [\<lparr>etype = Type_Ping, content = replicate 126 CHR ''a'', closeCode = None\<rparr>]
   \<and> calls_of (ReceiveFrame example_IsValidEncoding 4 126
                  (example_receiver Client example_long_ping Frag_None []))
       = [SendData (SendFrame_frame Client [0x37, 0xFA, 0x21, 0x3D] True OPCODE_PONG
                      (replicate 126 CHR ''a''))]
   \<and> SendFrame_frame Client [0x37, 0xFA, 0x21, 0x3D] True OPCODE_PONG
         (replicate 126 CHR ''a'') ! 0 = 0x8A"
proof -
  let ?s = "example_receiver Client example_long_ping Frag_None []"
  let ?k = "\<lparr>peerId = ''peer'', calls = []\<rparr>"
  have f: "example_long_ping ! 0 AND FIN = 0"
    and o: "example_long_ping ! 0 AND 0x0F = OPCODE_PING"
    by (simp_all add: example_long_ping_def FIN_def OPCODE_PING_def)
  have d: "ReceiveFrame_data Client 4 126 example_long_ping = Inr (replicate 126 CHR ''a'')"
    by (simp add: ReceiveFrame_data_def example_long_ping_def chr_a)
  have h: "\<not> closeReceived ?s" "2 \<le> length (frameReassemblyBuffer ?s)"
    "drop_bit 4 (frameReassemblyBuffer ?s ! 0) AND 0x07 = 0"
    "(frameReassemblyBuffer ?s ! 1 AND MASK \<noteq> 0) \<longleftrightarrow> role ?s = Server"
    "ReceiveFrame_data (role ?s) 4 126 (frameReassemblyBuffer ?s) = Inr (replicate 126 CHR ''a'')"
    "connection ?s = Some ?k"
    "frameReassemblyBuffer ?s ! 0 AND 0x0F = OPCODE_PING"
    using d by (simp_all add: example_receiver_simps o) (simp_all add: example_long_ping_def MASK_def)
  have k: "map (rng ?s) [0..<4] = [0x37, 0xFA, 0x21, 0x3D]"
    by code_simp
  note t = ping_always_answered [OF h, of example_IsValidEncoding]
  from t have
    "events_of (ReceiveFrame example_IsValidEncoding 4 126 ?s)
       = eventQueue ?s @ [\<lparr>etype = Type_Ping, content = replicate 126 CHR ''a'',
                            closeCode = None\<rparr>]
     \<and> calls_of (ReceiveFrame example_IsValidEncoding 4 126 ?s)
       = calls ?k @ [SendData (SendFrame_frame (role ?s) (map (rng ?s) [0..<4]) True OPCODE_PONG
                                 (replicate 126 CHR ''a''))]
     \<and> SendFrame_frame (role ?s) (map (rng ?s) [0..<4]) True OPCODE_PONG
         (replicate 126 CHR ''a'') ! 0 = 0x8A"
    by blast
  then have r:
    "events_of (ReceiveFrame example_IsValidEncoding 4 126 ?s)
       = [\<lparr>etype = Type_Ping, content = replicate 126 CHR ''a'', closeCode = None\<rparr>]
     \<and> calls_of (ReceiveFrame example_IsValidEncoding 4 126 ?s)
       = [SendData (SendFrame_frame Client [0x37, 0xFA, 0x21, 0x3D] True OPCODE_PONG
                      (replicate 126 CHR ''a''))]
     \<and> SendFrame_frame Client [0x37, 0xFA, 0x21, 0x3D] True OPCODE_PONG
         (replicate 126 CHR ''a'') ! 0 = 0x8A"
    unfolding k by (simp add: example_receiver_simps)
  show ?thesis
    using f o d r by (simp only: simp_thms)
qed

section \<open>What the handshake functions do\<close>

lemma StartOpenAsClient_key:
  assumes "StartOpenAsClient lib request client = (request', client')"
  shows "key client' = Base64_Encode lib (map (rng client) [0..<16])"
    and "requestHeaders request' =
           SetHeaderTokens lib ''Connection''
             (GetHeaderTokens lib ''Connection''
                (SetHeader lib ''Upgrade'' ''websocket''
                  (SetHeader lib ''Sec-WebSocket-Key'' (key client')
                    (SetHeader lib ''Sec-WebSocket-Version'' ''13'' (requestHeaders request))))
              @ [''upgrade''])
             (SetHeader lib ''Upgrade'' ''websocket''
               (SetHeader lib ''Sec-WebSocket-Key'' (key client')
                 (SetHeader lib ''Sec-WebSocket-Version'' ''13'' (requestHeaders request))))"
  using assms
  by (auto simp add: StartOpenAsClient_def Generate_def Let_def
      CURRENTLY_SUPPORTED_WEBSOCKET_VERSION_def)

lemma OpenAsServer_accepted:
  assumes "OpenAsServer lib conn request response trailer srv = Inr (True, response', srv')"
  shows "key srv' = GetHeaderValue lib ''Sec-WebSocket-Key'' (requestHeaders request)"
    and "length (Base64_Decode lib (key srv')) = 16"
    and "statusCode response' = 101"
    and "responseHeaders response' =
           SetHeader lib ''Sec-WebSocket-Accept'' (ComputeKeyAnswer lib (key srv'))
             (SetHeader lib ''Upgrade'' ''websocket''
               (SetHeaderTokens lib ''Connection''
                  (GetHeaderTokens lib ''Connection'' (responseHeaders response) @ [''upgrade''])
                  (responseHeaders response)))"
  using assms
  by (auto simp add: OpenAsServer_def Open_def Let_def REQUIRED_WEBSOCKET_KEY_LENGTH_def
      split: if_splits option.splits)

lemma FinishOpenAsClient_accepts:
  assumes "FinishOpenAsClient lib conn response s = Inr (True, s')"
  shows "GetHeaderValue lib ''Sec-WebSocket-Accept'' (responseHeaders response)
           = ComputeKeyAnswer lib (key s)"
  using assms
  by (auto simp add: FinishOpenAsClient_def Open_def Let_def split: if_splits option.splits)

lemma example_lib_laws:
  "GetHeaderValue example_lib n (SetHeader example_lib n v h) = v"
  "n \<noteq> m \<Longrightarrow> GetHeaderValue example_lib n (SetHeader example_lib m v h)
     = GetHeaderValue example_lib n h"
  "n \<noteq> m \<Longrightarrow> GetHeaderValue example_lib n (SetHeaderTokens example_lib m ts h)
     = GetHeaderValue example_lib n h"
  by (simp_all add: example_lib_def)

lemma example_start:
  "StartOpenAsClient example_lib example_request (example_engine Client)
     = (example_upgrade_request, example_client)"
  by (simp add: example_upgrade_request_def example_client_def)

lemma example_upgrade_request_headers:
  "requestMethod example_upgrade_request = ''GET''"
  "requestHeaders example_upgrade_request ''Connection'' = [''upgrade'']"
  "requestHeaders example_upgrade_request ''Upgrade'' = [''websocket'']"
  "requestHeaders example_upgrade_request ''Sec-WebSocket-Version'' = [''13'']"
  "requestHeaders example_upgrade_request ''Sec-WebSocket-Key''
     = [map chr (map example_rng [0..<16])]"
  by (simp_all add: example_upgrade_request_def StartOpenAsClient_def Generate_def Let_def
      example_lib_def example_request_def example_engine_def
      CURRENTLY_SUPPORTED_WEBSOCKET_VERSION_def)

lemma example_server_accepts:
  "example_server_result
     = Inr (True, fst (snd (projr example_server_result)), snd (snd (projr example_server_result)))"
  by (simp add: example_server_result_def OpenAsServer_def Open_def Let_def
      example_upgrade_request_headers example_lib_def
      CURRENTLY_SUPPORTED_WEBSOCKET_VERSION_def REQUIRED_WEBSOCKET_KEY_LENGTH_def)

section \<open>The handshake round trip\<close>

text \<open>
  C9. The handshake round trip, for any header collection in which a header
  that was set reads back and setting one header leaves the others alone, and
  for any Base64 and SHA-1. A client prepares its request with
  \<open>StartOpenAsClient\<close>, which draws 16 bytes \<open>K\<close> from the random generator and
  stores and sends \<open>Base64(K)\<close> as its key; a server accepts that request with
  \<open>OpenAsServer\<close> (which checks that the key decodes to 16 bytes). Then the
  server has read the client's key, the \<open>Sec-WebSocket-Accept\<close> value of its
  response is \<open>Base64(SHA1(Base64(K) + "258EAFA5-E914-47DA-95CA-C5AB0DC85B11"))\<close>,
  which is the value \<open>ComputeKeyAnswer\<close> gives the client for its stored key, so
  the comparison in \<open>FinishOpenAsClient\<close> passes on that response (the outcome
  depends on the other checks only); and every response that
  \<open>FinishOpenAsClient\<close> accepts carries exactly that value.
\<close>

theorem accept_value_round_trip:
  assumes get_set: "\<And>n v h. GetHeaderValue lib n (SetHeader lib n v h) = v"
    and get_other:
      "\<And>n m v h. n \<noteq> m \<Longrightarrow> GetHeaderValue lib n (SetHeader lib m v h) = GetHeaderValue lib n h"
    and get_tokens_other:
      "\<And>n m ts h. n \<noteq> m \<Longrightarrow>
         GetHeaderValue lib n (SetHeaderTokens lib m ts h) = GetHeaderValue lib n h"
    and start: "StartOpenAsClient lib request client = (request', client')"
    and server: "OpenAsServer lib conn request' response trailer srv = Inr (True, response', srv')"
  shows "key client' = Base64_Encode lib (map (rng client) [0..<16])
       \<and> length (map (rng client) [0..<16]) = 16
       \<and> key srv' = key client'
       \<and> GetHeaderValue lib ''Sec-WebSocket-Accept'' (responseHeaders response')
           = Base64_Encode lib
               (Sha1 lib (Base64_Encode lib (map (rng client) [0..<16])
                          @ ''258EAFA5-E914-47DA-95CA-C5AB0DC85B11''))
       \<and> GetHeaderValue lib ''Sec-WebSocket-Accept'' (responseHeaders response')
           = ComputeKeyAnswer lib (key client')
       \<and> FinishOpenAsClient lib conn2 response' client'
           = (if HasHeaderToken lib ''Connection'' ''upgrade'' (responseHeaders response')
                 \<and> ToLower lib (GetHeaderValue lib ''Upgrade'' (responseHeaders response'))
                     = ''websocket''
                 \<and> GetHeaderTokens lib ''Sec-WebSocket-Extensions'' (responseHeaders response')
                     = []
                 \<and> GetHeaderTokens lib ''Sec-WebSocket-Protocol'' (responseHeaders response')
                     = []
              then (case Open conn2 Client client' of
                      Inl e \<Rightarrow> Inl e
                    | Inr s1 \<Rightarrow> Inr (True, s1))
              else Inr (False, client'))
       \<and> (\<forall>conn3 other s3.
             FinishOpenAsClient lib conn3 other client' = Inr (True, s3) \<longrightarrow>
             GetHeaderValue lib ''Sec-WebSocket-Accept'' (responseHeaders other)
               = GetHeaderValue lib ''Sec-WebSocket-Accept'' (responseHeaders response'))"
proof -
  note st = StartOpenAsClient_key [OF start]
  note sv = OpenAsServer_accepted [OF server]
  have k: "key client' = Base64_Encode lib (map (rng client) [0..<16])"
    by (rule st(1))
  have hk: "GetHeaderValue lib ''Sec-WebSocket-Key'' (requestHeaders request') = key client'"
    by (simp add: st(2) get_set get_other get_tokens_other)
  then have same: "key srv' = key client'"
    by (simp add: sv(1))
  have acc: "GetHeaderValue lib ''Sec-WebSocket-Accept'' (responseHeaders response')
           = ComputeKeyAnswer lib (key client')"
    by (simp add: sv(4) get_set same)
  then have acc2: "GetHeaderValue lib ''Sec-WebSocket-Accept'' (responseHeaders response')
           = Base64_Encode lib
               (Sha1 lib (Base64_Encode lib (map (rng client) [0..<16])
                          @ ''258EAFA5-E914-47DA-95CA-C5AB0DC85B11''))"
    by (simp add: ComputeKeyAnswer_def WEBSOCKET_KEY_SALT_def k)
  have fin: "FinishOpenAsClient lib conn2 response' client'
           = (if HasHeaderToken lib ''Connection'' ''upgrade'' (responseHeaders response')
                 \<and> ToLower lib (GetHeaderValue lib ''Upgrade'' (responseHeaders response'))
                     = ''websocket''
                 \<and> GetHeaderTokens lib ''Sec-WebSocket-Extensions'' (responseHeaders response')
                     = []
                 \<and> GetHeaderTokens lib ''Sec-WebSocket-Protocol'' (responseHeaders response')
                     = []
              then (case Open conn2 Client client' of
                      Inl e \<Rightarrow> Inl e
                    | Inr s1 \<Rightarrow> Inr (True, s1))
              else Inr (False, client'))"
    using acc sv(3) by (simp add: FinishOpenAsClient_def Let_def)
  have only: "\<forall>conn3 other s3.
             FinishOpenAsClient lib conn3 other client' = Inr (True, s3) \<longrightarrow>
             GetHeaderValue lib ''Sec-WebSocket-Accept'' (responseHeaders other)
               = GetHeaderValue lib ''Sec-WebSocket-Accept'' (responseHeaders response')"
    using FinishOpenAsClient_accepts [of lib _ _ client'] acc by simp
  show ?thesis
    using k same acc acc2 fin only by simp
qed

theorem accept_value_round_trip_witness:
  "StartOpenAsClient example_lib example_request (example_engine Client)
     = (example_upgrade_request, example_client)
   \<and> OpenAsServer example_lib (Some \<lparr>peerId = ''client'', calls = []\<rparr>)
        example_upgrade_request example_response [] (example_engine Server)
     = Inr (True, example_accepted_response, example_server)
   \<and> key example_client = Base64_Encode example_lib (map example_rng [0..<16])
   \<and> key example_server = key example_client
   \<and> GetHeaderValue example_lib ''Sec-WebSocket-Accept''
        (responseHeaders example_accepted_response)
     = ComputeKeyAnswer example_lib (key example_client)
   \<and> map_sum id fst
        (FinishOpenAsClient example_lib (Some \<lparr>peerId = ''server'', calls = []\<rparr>)
           example_accepted_response example_client)
     = Inr True"
proof -
  have sv: "OpenAsServer example_lib (Some \<lparr>peerId = ''client'', calls = []\<rparr>)
        example_upgrade_request example_response [] (example_engine Server)
     = Inr (True, example_accepted_response, example_server)"
    using example_server_accepts
    by (simp add: example_accepted_response_def example_server_def example_server_result_def)
  note t = accept_value_round_trip [of example_lib, OF example_lib_laws example_start sv,
      of "Some \<lparr>peerId = ''server'', calls = []\<rparr>"]
  have r: "rng (example_engine Client) = example_rng"
    by (simp add: example_engine_def)
  have hdr: "HasHeaderToken example_lib ''Connection'' ''upgrade''
               (responseHeaders example_accepted_response)
             \<and> ToLower example_lib (GetHeaderValue example_lib ''Upgrade''
                  (responseHeaders example_accepted_response)) = ''websocket''
             \<and> GetHeaderTokens example_lib ''Sec-WebSocket-Extensions''
                  (responseHeaders example_accepted_response) = []
             \<and> GetHeaderTokens example_lib ''Sec-WebSocket-Protocol''
                  (responseHeaders example_accepted_response) = []"
    using OpenAsServer_accepted(4) [OF sv]
    by (simp add: example_lib_def example_response_def)
  from t have k: "key example_client = Base64_Encode example_lib (map example_rng [0..<16])
      \<and> key example_server = key example_client
      \<and> GetHeaderValue example_lib ''Sec-WebSocket-Accept''
           (responseHeaders example_accepted_response)
         = ComputeKeyAnswer example_lib (key example_client)"
    unfolding r by blast
  from t have "FinishOpenAsClient example_lib (Some \<lparr>peerId = ''server'', calls = []\<rparr>)
           example_accepted_response example_client
           = (if HasHeaderToken example_lib ''Connection'' ''upgrade''
                   (responseHeaders example_accepted_response)
                 \<and> ToLower example_lib (GetHeaderValue example_lib ''Upgrade''
                      (responseHeaders example_accepted_response)) = ''websocket''
                 \<and> GetHeaderTokens example_lib ''Sec-WebSocket-Extensions''
                      (responseHeaders example_accepted_response) = []
                 \<and> GetHeaderTokens example_lib ''Sec-WebSocket-Protocol''
                      (responseHeaders example_accepted_response) = []
              then (case Open (Some \<lparr>peerId = ''server'', calls = []\<rparr>) Client example_client of
                      Inl e \<Rightarrow> Inl e
                    | Inr s1 \<Rightarrow> Inr (True, s1))
              else Inr (False, example_client))"
    by blast
  then have f: "map_sum id fst
        (FinishOpenAsClient example_lib (Some \<lparr>peerId = ''server'', calls = []\<rparr>)
           example_accepted_response example_client)
     = Inr True"
    using hdr by (simp add: Open_def)
  show ?thesis
    using example_start sv k f by (simp only: simp_thms)
qed

end
